theory Spec2Isabelle
  imports Complex_Main
begin

section \<open>Python values used by the detector\<close>

text \<open>
  Exceptions that are subclasses of Python's \<open>Exception\<close>.  \<open>SystemExit\<close> is not one of
  them and is kept apart (see \<open>outcome\<close> below).  \<open>CvError\<close> is \<open>cv2.error\<close>;
  \<open>ExternalError\<close> is any exception raised inside the model or the tracker.
\<close>

datatype exn =
    ZeroDivisionError
  | TypeError
  | AttributeError
  | IndexError
  | ValueError
  | CvError
  | ExternalError string

text \<open>
  An optional array attribute of a detections object: the attribute does not exist
  (\<open>hasattr\<close> is false), it is \<open>None\<close>, or it is an array.
\<close>

datatype 'a attr = Missing | PyNone | Arr "'a list"

text \<open>Sequencing of computations that may raise: the first exception wins.\<close>

definition bind_exn :: "exn + 'a \<Rightarrow> ('a \<Rightarrow> exn + 'b) \<Rightarrow> exn + 'b" where
  "bind_exn r f = (case r of Inl e \<Rightarrow> Inl e | Inr x \<Rightarrow> f x)"

type_synonym box = "real \<times> real \<times> real \<times> real"

text \<open>
  \<open>sv.Detections\<close> is a structure of parallel arrays.  Coordinates and confidences are
  floating-point numbers in the program; they are real numbers here.
\<close>

record detections =
  xyxy :: "box list"
  confidence :: "real attr"
  class_id :: "int attr"
  tracker_id :: "int attr"

definition len_det :: "detections \<Rightarrow> nat" where
  "len_det d = length (xyxy d)"

text \<open>\<open>Detections.empty()\<close> of the supervision library.\<close>

definition empty_detections :: detections where
  "empty_detections = \<lparr>xyxy = [], confidence = Arr [], class_id = Arr [], tracker_id = PyNone\<rparr>"

subsection \<open>The class table of \<open>VehicleDetector.__init__\<close>\<close>

definition vehicle_classes :: "(int \<times> string) list" where
  "vehicle_classes =
    [(0, ''person''), (1, ''bicycle''), (2, ''car''), (3, ''motorcycle''),
     (5, ''bus''), (7, ''truck''), (8, ''boat''), (4, ''airplane''), (6, ''train''),
     (9, ''traffic_light''), (10, ''fire_hydrant''), (11, ''stop_sign''),
     (13, ''bench''), (14, ''bird''), (15, ''cat''), (16, ''dog''), (17, ''horse''),
     (18, ''sheep''), (19, ''cow''), (20, ''elephant''), (21, ''bear''), (22, ''zebra''),
     (23, ''giraffe''), (24, ''backpack''), (25, ''umbrella''), (27, ''handbag''),
     (28, ''suitcase''), (31, ''sports_ball''), (32, ''kite''), (33, ''baseball_bat''),
     (34, ''baseball_glove''), (35, ''skateboard''), (36, ''surfboard''),
     (37, ''tennis_racket''), (38, ''bottle''), (39, ''wine_glass''), (40, ''cup''),
     (41, ''fork''), (42, ''knife''), (43, ''spoon''), (44, ''bowl''), (46, ''banana''),
     (47, ''apple''), (48, ''sandwich''), (49, ''orange''), (50, ''broccoli''),
     (51, ''carrot''), (52, ''hot_dog''), (53, ''pizza''), (54, ''donut''), (55, ''cake''),
     (56, ''chair''), (57, ''couch''), (58, ''potted_plant''), (59, ''bed''),
     (60, ''dining_table''), (61, ''toilet''), (62, ''tv''), (63, ''laptop''),
     (64, ''mouse''), (65, ''remote''), (66, ''keyboard''), (67, ''cell_phone''),
     (68, ''microwave''), (69, ''oven''), (70, ''toaster''), (71, ''sink''),
     (72, ''refrigerator''), (73, ''book''), (74, ''clock''), (75, ''vase''),
     (76, ''scissors''), (77, ''teddy_bear''), (78, ''hair_drier''), (79, ''toothbrush'')]"

text \<open>\<open>class_id in self.vehicle_classes\<close>: membership among the keys of the dictionary.\<close>

definition is_vehicle_class :: "int \<Rightarrow> bool" where
  "is_vehicle_class c = (map_of vehicle_classes c \<noteq> None)"

subsection \<open>Boolean-mask indexing\<close>

text \<open>
  \<open>a[mask]\<close> for a numpy array and a boolean array: the mask must be as long as the
  array, otherwise numpy raises \<open>IndexError\<close>.
\<close>

definition np_mask :: "bool list \<Rightarrow> 'a list \<Rightarrow> exn + 'a list" where
  "np_mask m xs =
     (if length m = length xs then Inr (map fst (filter snd (zip xs m)))
      else Inl IndexError)"

text \<open>
  \<open>Detections.__getitem__\<close> of the supervision library indexes every array field that is
  not \<open>None\<close>; reading a field that the object does not have raises \<open>AttributeError\<close>.
\<close>

fun attr_mask :: "bool list \<Rightarrow> 'a attr \<Rightarrow> exn + 'a attr" where
  "attr_mask m Missing = Inl AttributeError"
| "attr_mask m PyNone = Inr PyNone"
| "attr_mask m (Arr xs) = (case np_mask m xs of Inl e \<Rightarrow> Inl e | Inr ys \<Rightarrow> Inr (Arr ys))"

definition getitem_mask :: "detections \<Rightarrow> bool list \<Rightarrow> exn + detections" where
  "getitem_mask d m =
     bind_exn (np_mask m (xyxy d)) (\<lambda>bs.
     bind_exn (attr_mask m (confidence d)) (\<lambda>cf.
     bind_exn (attr_mask m (class_id d)) (\<lambda>ci.
     bind_exn (attr_mask m (tracker_id d)) (\<lambda>ti.
       Inr \<lparr>xyxy = bs, confidence = cf, class_id = ci, tracker_id = ti\<rparr>))))"

section \<open>\<open>VehicleDetector.filter_vehicles\<close>\<close>

text \<open>
  Iterating \<open>detections.class_id\<close> raises \<open>AttributeError\<close> when the attribute is missing
  and \<open>TypeError\<close> when it is \<open>None\<close>.
\<close>

definition filter_vehicles :: "detections \<Rightarrow> exn + detections" where
  "filter_vehicles d =
     (if len_det d = 0 then Inr d
      else case class_id d of
             Missing \<Rightarrow> Inl AttributeError
           | PyNone \<Rightarrow> Inl TypeError
           | Arr cs \<Rightarrow> getitem_mask d (map is_vehicle_class cs))"


section \<open>Numbers and strings\<close>

text \<open>Python's \<open>a / b\<close> raises \<open>ZeroDivisionError\<close> when \<open>b\<close> is zero.\<close>

definition py_truediv :: "real \<Rightarrow> real \<Rightarrow> exn + real" where
  "py_truediv a b = (if b = 0 then Inl ZeroDivisionError else Inr (a / b))"

text \<open>Python's \<open>int(x)\<close> on a float truncates towards zero.\<close>

definition py_int :: "real \<Rightarrow> int" where
  "py_int x = (if 0 \<le> x then \<lfloor>x\<rfloor> else \<lceil>x\<rceil>)"

subsection \<open>Binary floating point\<close>

text \<open>
  Rounding of a real number to the nearest binary floating-point number with \<open>p\<close>
  significant bits, ties to the even significand (IEEE 754 round-to-nearest-even).  The
  exponent of the binade of \<open>x\<close> is found by halving or doubling; \<open>up\<close> bounds it from
  above and \<open>down\<close> from below, so that magnitudes under the smallest normal number are
  rounded on the subnormal grid.  Only finite values are represented: a magnitude beyond the
  largest finite number, which the hardware turns into infinity, is rounded on the grid of
  the top binade.
\<close>

definition pow2 :: "int \<Rightarrow> real" where
  "pow2 k = (if 0 \<le> k then 2 ^ nat k else 1 / 2 ^ nat (- k))"

definition round_half_even :: "real \<Rightarrow> int" where
  "round_half_even y =
     (let f = \<lfloor>y\<rfloor>; r = y - of_int f
      in if r < 1 / 2 then f else if 1 / 2 < r then f + 1 else if even f then f else f + 1)"

fun binade_up :: "nat \<Rightarrow> real \<Rightarrow> int" where
  "binade_up 0 x = 0"
| "binade_up (Suc n) x = (if x < 2 then 0 else 1 + binade_up n (x / 2))"

fun binade_down :: "nat \<Rightarrow> real \<Rightarrow> int" where
  "binade_down 0 x = 0"
| "binade_down (Suc n) x = (if 1 \<le> x then 0 else binade_down n (2 * x) - 1)"

definition round_binary :: "nat \<Rightarrow> nat \<Rightarrow> nat \<Rightarrow> real \<Rightarrow> real" where
  "round_binary p up down x =
     (if x = 0 then 0
      else let e = (if 1 \<le> \<bar>x\<bar> then binade_up up \<bar>x\<bar> else binade_down down \<bar>x\<bar>);
               ulp = pow2 (e - int p + 1)
           in of_int (round_half_even (x / ulp)) * ulp)"

text \<open>\<open>np.float32\<close> (24 significant bits) and Python's \<open>float\<close> (53 significant bits).\<close>

definition f32 :: "real \<Rightarrow> real" where
  "f32 = round_binary 24 128 126"

definition f64 :: "real \<Rightarrow> real" where
  "f64 = round_binary 53 1024 1022"

text \<open>
  An element of a \<open>float32\<close> array multiplied in place by a Python \<open>float\<close>: numpy
  converts the scalar to \<open>float32\<close> and rounds the product to \<open>float32\<close>.
\<close>

definition mul_f32 :: "real \<Rightarrow> real \<Rightarrow> real" where
  "mul_f32 x s = f32 (x * f32 s)"

subsection \<open>Strings\<close>

text \<open>Decimal rendering of an integer, as \<open>str\<close> and f-strings do.\<close>

definition digit_char :: "nat \<Rightarrow> char" where
  "digit_char d = ''0123456789'' ! d"

fun str_nat :: "nat \<Rightarrow> string" where
  "str_nat n = (if n < 10 then [digit_char n] else str_nat (n div 10) @ [digit_char (n mod 10)])"

declare str_nat.simps [simp del]

definition str_int :: "int \<Rightarrow> string" where
  "str_int i = (if i < 0 then CHR ''-'' # str_nat (nat (- i)) else str_nat (nat i))"

section \<open>Frames, the heap of arrays, and the external libraries\<close>

text \<open>
  A frame is a numpy array: \<open>frame.shape[:2]\<close> is \<open>(height, width)\<close>; the pixel buffer is
  left abstract.
\<close>

record 'px image =
  img_height :: nat
  img_width :: nat
  img_data :: 'px

text \<open>
  Arrays live on a heap and are passed by reference; \<open>cv2.putText\<close> and the box annotator
  write into the array they are given.  An address is an index into the heap.
\<close>

type_synonym 'px heap = "'px image list"

definition heap_alloc :: "'px heap \<Rightarrow> 'px image \<Rightarrow> 'px heap \<times> nat" where
  "heap_alloc h im = (h @ [im], length h)"

text \<open>
  Everything the detector calls but does not define: the YOLO model, the ByteTrack tracker,
  OpenCV's resampling, drawing and file reading, and float formatting.  A model or tracker
  call that raises yields the exception's message on the left.

  \<^item> \<open>yolo_load\<close>: \<open>YOLO(path)\<close>;
  \<^item> \<open>yolo_run\<close>: \<open>sv.Detections.from_ultralytics(model(img, verbose=False)[0])\<close>;
  \<^item> \<open>bytetrack_new\<close>, \<open>bytetrack_update\<close>: \<open>sv.ByteTrack()\<close> and its
    \<open>update_with_detections\<close>;
  \<^item> \<open>np_zeros h w\<close>: the buffer of \<open>np.zeros((h, w, 3), dtype=np.uint8)\<close>;
  \<^item> \<open>resize_data img w h\<close>: the buffer computed by \<open>cv2.resize(img, (w, h))\<close>, or
    \<open>None\<close> when OpenCV cannot produce it (the target array cannot be allocated);
  \<^item> \<open>draw_box d i\<close>: what \<open>sv.BoxAnnotator\<close> paints for the \<open>i\<close>-th detection of \<open>d\<close>;
  \<^item> \<open>put_text text org scale\<close>: \<open>cv2.putText\<close> in white, thickness 2;
  \<^item> \<open>imread\<close>: \<open>cv2.imread\<close>, \<open>None\<close> for an unreadable file;
  \<^item> \<open>format_float n x\<close>: \<open>f"{x:.nf}"\<close>;
  \<^item> \<open>str_exception\<close>: \<open>str(e)\<close>.
\<close>

record ('m, 't, 'px) env =
  yolo_load :: "string \<Rightarrow> string + 'm"
  yolo_run :: "'m \<Rightarrow> 'px image \<Rightarrow> string + detections"
  bytetrack_new :: "'t"
  bytetrack_update :: "'t \<Rightarrow> detections \<Rightarrow> string + ('t \<times> detections)"
  np_zeros :: "nat \<Rightarrow> nat \<Rightarrow> 'px"
  resize_data :: "'px image \<Rightarrow> nat \<Rightarrow> nat \<Rightarrow> 'px option"
  draw_box :: "detections \<Rightarrow> nat \<Rightarrow> 'px image \<Rightarrow> 'px image"
  put_text :: "string \<Rightarrow> int \<times> int \<Rightarrow> real \<Rightarrow> 'px image \<Rightarrow> 'px image"
  imread :: "string \<Rightarrow> 'px image option"
  format_float :: "nat \<Rightarrow> real \<Rightarrow> string"
  str_exception :: "exn \<Rightarrow> string"

definition external :: "string + 'a \<Rightarrow> exn + 'a" where
  "external r = (case r of Inl msg \<Rightarrow> Inl (ExternalError msg) | Inr x \<Rightarrow> Inr x)"

text \<open>
  \<open>cv2.resize(frame, (w, h))\<close> raises \<open>cv2.error\<close> for an empty source, for an empty
  target size, for a target size that does not fit a C \<open>int\<close>, and when the target array
  cannot be produced; otherwise it returns a new array of shape \<open>(h, w)\<close>.
\<close>

definition c_int_max :: nat where
  "c_int_max = 2147483647"

definition cv2_resize :: "('m, 't, 'px) env \<Rightarrow> 'px image \<Rightarrow> nat \<times> nat \<Rightarrow> exn + 'px image" where
  "cv2_resize env frame dsize =
     (case dsize of (w, h) \<Rightarrow>
        if img_width frame = 0 \<or> img_height frame = 0 \<or> w = 0 \<or> h = 0 then Inl CvError
        else if c_int_max < w \<or> c_int_max < h then Inl CvError
        else case resize_data env frame w h of
               None \<Rightarrow> Inl CvError
             | Some px \<Rightarrow> Inr \<lparr>img_height = h, img_width = w, img_data = px\<rparr>)"

text \<open>
  \<open>sv.BoxAnnotator.annotate(scene, detections)\<close> paints one box per detection into
  \<open>scene\<close> and returns it.
\<close>

definition box_annotate :: "('m, 't, 'px) env \<Rightarrow> detections \<Rightarrow> 'px image \<Rightarrow> 'px image" where
  "box_annotate env d scene = fold (draw_box env d) [0..<len_det d] scene"

text \<open>
  The constructor \<open>sv.Detections(xyxy=..., confidence=..., class_id=...)\<close>: the other fields
  default to \<open>None\<close>, and an array field whose length differs from that of \<open>xyxy\<close> is
  rejected with \<open>ValueError\<close>.
\<close>

fun attr_len_ok :: "nat \<Rightarrow> 'a attr \<Rightarrow> bool" where
  "attr_len_ok n Missing = False"
| "attr_len_ok n PyNone = True"
| "attr_len_ok n (Arr xs) = (length xs = n)"

definition mk_detections :: "box list \<Rightarrow> real attr \<Rightarrow> int attr \<Rightarrow> exn + detections" where
  "mk_detections bs cf ci =
     (if cf = Missing \<or> ci = Missing then Inl AttributeError
      else if attr_len_ok (length bs) cf \<and> attr_len_ok (length bs) ci
      then Inr \<lparr>xyxy = bs, confidence = cf, class_id = ci, tracker_id = PyNone\<rparr>
      else Inl ValueError)"


section \<open>\<open>VehicleDetector\<close>\<close>

text \<open>
  A computation ends by returning, by raising an \<open>Exception\<close>, or by \<open>sys.exit\<close>, whose
  \<open>SystemExit\<close> no \<open>except Exception\<close> clause catches.
\<close>

datatype 'a outcome = Returned 'a | Raised exn | SystemExit int

record ('m, 't) detector =
  model_size :: string
  conf_threshold :: real
  frame_count :: nat
  model_version :: string
  model :: 'm
  tracker :: 't
  fps_history :: "real list"

subsection \<open>\<open>load_model\<close> and \<open>__init__\<close>\<close>

definition dummy_img :: "('m, 't, 'px) env \<Rightarrow> 'px image" where
  "dummy_img env = \<lparr>img_height = 640, img_width = 640, img_data = np_zeros env 640 640\<rparr>"

definition load_model :: "('m, 't, 'px) env \<Rightarrow> string \<Rightarrow> 'm outcome" where
  "load_model env msize =
     (case yolo_load env (''yolov8'' @ msize @ ''.pt'') of
        Inl msg \<Rightarrow> SystemExit 1
      | Inr m \<Rightarrow>
          (case yolo_run env m (dummy_img env) of
             Inl msg \<Rightarrow> SystemExit 1
           | Inr r \<Rightarrow> Returned m))"

definition new_detector :: "('m, 't, 'px) env \<Rightarrow> string \<Rightarrow> real \<Rightarrow> 'm \<Rightarrow> ('m, 't) detector" where
  "new_detector env msize conf m =
     \<lparr>model_size = msize, conf_threshold = conf, frame_count = 0, model_version = ''v8'',
      model = m, tracker = bytetrack_new env, fps_history = []\<rparr>"

definition vehicle_detector_init ::
  "('m, 't, 'px) env \<Rightarrow> string \<Rightarrow> real \<Rightarrow> ('m, 't) detector outcome" where
  "vehicle_detector_init env msize conf =
     (case load_model env msize of
        SystemExit n \<Rightarrow> SystemExit n
      | Raised e \<Rightarrow> Raised e
      | Returned m \<Rightarrow> Returned (new_detector env msize conf m))"

subsection \<open>\<open>process_frame\<close>: downsizing, inference, rescaling, filtering\<close>

text \<open>
  \<open>target_width = int(width * target_height / height)\<close> with \<open>target_height = 480\<close>; the
  quotient, a float in the program, is a real number here.
\<close>

definition target_size :: "'px image \<Rightarrow> exn + nat \<times> nat" where
  "target_size frame =
     bind_exn (py_truediv (real (img_width frame * 480)) (real (img_height frame))) (\<lambda>q.
       Inr (nat (py_int q), 480))"

definition inference_frame :: "('m, 't, 'px) env \<Rightarrow> 'px image \<Rightarrow> exn + 'px image" where
  "inference_frame env frame = bind_exn (target_size frame) (cv2_resize env frame)"

text \<open>
  \<open>scale_x = width / target_width\<close> and \<open>scale_y = height / target_height\<close> are Python
  floats; \<open>scaled_xyxy[:, [0, 2]] *= scale_x\<close> and \<open>scaled_xyxy[:, [1, 3]] *= scale_y\<close>
  multiply the \<open>float32\<close> coordinates in place.
\<close>

definition scale_box :: "real \<Rightarrow> real \<Rightarrow> box \<Rightarrow> box" where
  "scale_box sx sy b =
     (case b of (x1, y1, x2, y2) \<Rightarrow> (mul_f32 x1 sx, mul_f32 y1 sy, mul_f32 x2 sx, mul_f32 y2 sy))"

definition rescale :: "nat \<times> nat \<Rightarrow> nat \<times> nat \<Rightarrow> detections \<Rightarrow> exn + detections" where
  "rescale orig target d =
     (case orig of (width, height) \<Rightarrow> case target of (target_width, target_height) \<Rightarrow>
        if len_det d > 0 then
          bind_exn (py_truediv (real width) (real target_width)) (\<lambda>qx.
          bind_exn (py_truediv (real height) (real target_height)) (\<lambda>qy.
            let scale_x = f64 qx; scale_y = f64 qy
            in mk_detections (map (scale_box scale_x scale_y) (xyxy d)) (confidence d) (class_id d)))
        else Inr d)"

definition detect_stage ::
  "('m, 't, 'px) env \<Rightarrow> 'm \<Rightarrow> 'px image \<Rightarrow> exn + (nat \<times> nat) \<times> detections" where
  "detect_stage env m frame =
     bind_exn (target_size frame) (\<lambda>target.
     bind_exn (cv2_resize env frame target) (\<lambda>processed_frame.
     bind_exn (external (yolo_run env m processed_frame)) (\<lambda>raw.
     bind_exn (rescale (img_width frame, img_height frame) target raw) (\<lambda>d.
     bind_exn (filter_vehicles d) (\<lambda>vehicle_detections.
       Inr (target, vehicle_detections))))))"

definition track_stage ::
  "('m, 't, 'px) env \<Rightarrow> 't \<Rightarrow> detections \<Rightarrow> exn + 't \<times> detections" where
  "track_stage env trk vd =
     (if len_det vd > 0 then external (bytetrack_update env trk vd) else Inr (trk, vd))"

subsection \<open>\<open>process_frame\<close>: labels\<close>

definition class_name_of :: "int \<Rightarrow> string" where
  "class_name_of c = (case map_of vehicle_classes c of Some n \<Rightarrow> n | None \<Rightarrow> ''class_'' @ str_int c)"

text \<open>
  One iteration of the label loop.  \<open>hasattr(vehicle_detections, 'tracker_id')\<close> is false
  for a missing attribute; \<open>len(None)\<close> raises \<open>TypeError\<close>.
\<close>

definition label_at ::
  "('m, 't, 'px) env \<Rightarrow> int attr \<Rightarrow> nat \<Rightarrow> int \<Rightarrow> real \<Rightarrow> exn + string" where
  "label_at env tids i c cf =
     (case tids of
        Missing \<Rightarrow> Inr (class_name_of c @ '' '' @ format_float env 2 cf)
      | PyNone \<Rightarrow> Inl TypeError
      | Arr ts \<Rightarrow>
          if length ts > i
          then Inr (''ID:'' @ str_int (ts ! i) @ '' '' @ class_name_of c @ '' '' @ format_float env 2 cf)
          else Inr (class_name_of c @ '' '' @ format_float env 2 cf))"

fun labels_loop ::
  "('m, 't, 'px) env \<Rightarrow> int attr \<Rightarrow> nat \<Rightarrow> (int \<times> real) list \<Rightarrow> exn + string list" where
  "labels_loop env tids i [] = Inr []"
| "labels_loop env tids i ((c, cf) # rest) =
     bind_exn (label_at env tids i c cf) (\<lambda>l.
     bind_exn (labels_loop env tids (Suc i) rest) (\<lambda>ls. Inr (l # ls)))"

text \<open>
  \<open>zip(vehicle_detections.class_id, vehicle_detections.confidence)\<close>: both attributes are
  read first, then \<open>zip\<close> rejects \<open>None\<close>.
\<close>

definition make_labels :: "('m, 't, 'px) env \<Rightarrow> detections \<Rightarrow> exn + string list" where
  "make_labels env vd =
     (if class_id vd = Missing \<or> confidence vd = Missing then Inl AttributeError
      else case (class_id vd, confidence vd) of
             (Arr cs, Arr cfs) \<Rightarrow> labels_loop env (tracker_id vd) 0 (zip cs cfs)
           | _ \<Rightarrow> Inl TypeError)"

definition label_org :: "box \<Rightarrow> int \<times> int" where
  "label_org b = (case b of (x1, y1, x2, y2) \<Rightarrow> (py_int x1, py_int y1 - 10))"

definition draw_labels ::
  "('m, 't, 'px) env \<Rightarrow> box list \<Rightarrow> string list \<Rightarrow> 'px image \<Rightarrow> 'px image" where
  "draw_labels env bs labels scene =
     fold (\<lambda>(b, l). put_text env l (label_org b) (6 / 10)) (zip bs labels) scene"

subsection \<open>\<open>process_frame\<close>: performance window and overlay\<close>

definition frame_fps :: "real \<Rightarrow> exn + real" where
  "frame_fps inference_time = (if inference_time > 0 then py_truediv 1 inference_time else Inr 0)"

text \<open>\<open>append\<close>, then \<open>pop(0)\<close> when more than 30 entries are held.\<close>

definition push_fps :: "real list \<Rightarrow> real \<Rightarrow> real list" where
  "push_fps h fps = (let h' = h @ [fps] in if length h' > 30 then tl h' else h')"

definition mean_fps :: "real list \<Rightarrow> exn + real" where
  "mean_fps h = py_truediv (sum_list h) (real (length h))"

definition info_text :: "('m, 't, 'px) env \<Rightarrow> nat \<Rightarrow> real \<Rightarrow> nat \<Rightarrow> string" where
  "info_text env n avg_fps fc =
     ''Vehicles: '' @ str_nat n @ '' | FPS: '' @ format_float env 1 avg_fps
       @ '' | Frame: '' @ str_nat fc"

definition inference_text :: "('m, 't, 'px) env \<Rightarrow> real \<Rightarrow> nat \<times> nat \<Rightarrow> string" where
  "inference_text env inference_time target =
     ''Inference: '' @ format_float env 1 (inference_time * 1000) @ ''ms | Processed: ''
       @ str_nat (fst target) @ ''x'' @ str_nat (snd target)"

subsection \<open>\<open>process_frame\<close>\<close>

text \<open>
  The frame is the array at address \<open>a\<close>; \<open>inference_time\<close> is the difference of the two
  clock readings around the model call.  The result is the returned pair (address of the
  annotated frame, detections) or the exception raised, together with the detector and the
  heap as the call leaves them.
\<close>

definition process_frame ::
  "('m, 't, 'px) env \<Rightarrow> ('m, 't) detector \<Rightarrow> 'px heap \<Rightarrow> nat \<Rightarrow> real
     \<Rightarrow> (exn + nat \<times> detections) \<times> ('m, 't) detector \<times> 'px heap" where
  "process_frame env det heap a inference_time =
     (let det1 = det\<lparr>frame_count := frame_count det + 1\<rparr>; frame = heap ! a in
      case detect_stage env (model det1) frame of
        Inl e \<Rightarrow> (Inl e, det1, heap)
      | Inr (target, filtered) \<Rightarrow>
     (case track_stage env (tracker det1) filtered of
        Inl e \<Rightarrow> (Inl e, det1, heap)
      | Inr (trk, vd) \<Rightarrow>
     (let det2 = det1\<lparr>tracker := trk\<rparr> in
      case make_labels env vd of
        Inl e \<Rightarrow> (Inl e, det2, heap)
      | Inr labels \<Rightarrow>
     (let (heap1, c) = heap_alloc heap frame;
          heap2 = heap1[c := box_annotate env vd (heap1 ! c)];
          heap3 = heap2[c := draw_labels env (xyxy vd) labels (heap2 ! c)] in
      case frame_fps inference_time of
        Inl e \<Rightarrow> (Inl e, det2, heap3)
      | Inr fps \<Rightarrow>
     (let det3 = det2\<lparr>fps_history := push_fps (fps_history det2) fps\<rparr> in
      case mean_fps (fps_history det3) of
        Inl e \<Rightarrow> (Inl e, det3, heap3)
      | Inr avg_fps \<Rightarrow>
     (let heap4 = heap3[c := put_text env (info_text env (len_det vd) avg_fps (frame_count det3))
                              (10, 30) 1 (heap3 ! c)];
          heap5 = heap4[c := put_text env (inference_text env inference_time target)
                              (10, 70) 1 (heap4 ! c)]
      in (Inr (c, vd), det3, heap5)))))))"

subsection \<open>\<open>get_performance_stats\<close>\<close>

definition py_min :: "real list \<Rightarrow> exn + real" where
  "py_min xs = (case xs of [] \<Rightarrow> Inl ValueError | x # rest \<Rightarrow> Inr (fold min rest x))"

definition py_max :: "real list \<Rightarrow> exn + real" where
  "py_max xs = (case xs of [] \<Rightarrow> Inl ValueError | x # rest \<Rightarrow> Inr (fold max rest x))"

text \<open>The returned dictionary, in the order its keys are written.\<close>

definition get_performance_stats :: "('m, 't) detector \<Rightarrow> exn + (string \<times> real) list" where
  "get_performance_stats det =
     (if fps_history det = [] then Inr [(''avg_fps'', 0), (''total_frames'', 0)]
      else if fps_history det = [] then
        Inr [(''avg_fps'', 0), (''total_frames'', real (frame_count det)),
             (''min_fps'', 0), (''max_fps'', 0)]
      else
        bind_exn (mean_fps (fps_history det)) (\<lambda>avg.
        bind_exn (py_min (fps_history det)) (\<lambda>mn.
        bind_exn (py_max (fps_history det)) (\<lambda>mx.
          Inr [(''avg_fps'', avg), (''total_frames'', real (frame_count det)),
               (''min_fps'', mn), (''max_fps'', mx)]))))"


section \<open>\<open>detect_frame\<close> of the Qt bridge script\<close>

datatype json =
    JNum real
  | JInt int
  | JStr string
  | JBool bool
  | JList "json list"
  | JObj "(string \<times> json) list"

definition coco_classes :: "string list" where
  "coco_classes =
     [''person'', ''bicycle'', ''car'', ''motorcycle'', ''airplane'', ''bus'', ''train'',
      ''truck'', ''boat'']"

text \<open>Python list indexing: a negative index counts from the end.\<close>

definition py_getitem :: "'a list \<Rightarrow> int \<Rightarrow> exn + 'a" where
  "py_getitem xs i =
     (if 0 \<le> i \<and> i < int (length xs) then Inr (xs ! nat i)
      else if i < 0 \<and> - int (length xs) \<le> i then Inr (xs ! nat (int (length xs) + i))
      else Inl IndexError)"

text \<open>
  \<open>hasattr(detections, name) and i < len(detections.name)\<close>, followed by the read of entry
  \<open>i\<close>: \<open>None\<close> stands for the \<open>else\<close> branch.
\<close>

fun attr_at :: "'a attr \<Rightarrow> nat \<Rightarrow> exn + 'a option" where
  "attr_at Missing i = Inr None"
| "attr_at PyNone i = Inl TypeError"
| "attr_at (Arr xs) i = Inr (if i < length xs then Some (xs ! i) else None)"

definition detection_result :: "detections \<Rightarrow> nat \<Rightarrow> box \<Rightarrow> exn + json" where
  "detection_result d i bbox =
     bind_exn (attr_at (tracker_id d) i) (\<lambda>t.
     bind_exn (attr_at (confidence d) i) (\<lambda>cf.
     bind_exn (attr_at (class_id d) i) (\<lambda>ci.
       let track_id = (case t of Some v \<Rightarrow> v | None \<Rightarrow> int i);
           conf = (case cf of Some v \<Rightarrow> v | None \<Rightarrow> 5 / 10);
           cid = (case ci of Some v \<Rightarrow> v | None \<Rightarrow> 2)
       in bind_exn (if cid < int (length coco_classes) then py_getitem coco_classes cid
                    else Inr (''class_'' @ str_int cid)) (\<lambda>class_name.
            case bbox of (x1, y1, x2, y2) \<Rightarrow>
              Inr (JObj [(''bbox'', JList [JNum x1, JNum y1, JNum x2, JNum y2]),
                         (''track_id'', JInt track_id),
                         (''confidence'', JNum conf),
                         (''class_id'', JInt cid),
                         (''class_name'', JStr class_name)])))))"

fun results_loop :: "detections \<Rightarrow> nat \<Rightarrow> box list \<Rightarrow> exn + json list" where
  "results_loop d i [] = Inr []"
| "results_loop d i (bbox # rest) =
     bind_exn (detection_result d i bbox) (\<lambda>r.
     bind_exn (results_loop d (Suc i) rest) (\<lambda>rs. Inr (r # rs)))"

definition detection_results :: "detections \<Rightarrow> exn + json list" where
  "detection_results d = (if len_det d > 0 then results_loop d 0 (xyxy d) else Inr [])"

definition error_json :: "('m, 't, 'px) env \<Rightarrow> exn \<Rightarrow> json" where
  "error_json env e = JObj [(''error'', JStr (str_exception env e)), (''success'', JBool False)]"

text \<open>
  The value passed to \<open>json.dumps\<close>.  \<open>cv2.imread\<close> puts the image into a new array;
  \<open>inference_time\<close> is the time measured inside the one call of \<open>process_frame\<close>.
\<close>

definition detect_frame ::
  "('m, 't, 'px) env \<Rightarrow> 'px heap \<Rightarrow> string \<Rightarrow> string \<Rightarrow> real \<Rightarrow> real \<Rightarrow> json outcome" where
  "detect_frame env heap image_path msize conf inference_time =
     (case vehicle_detector_init env msize conf of
        SystemExit n \<Rightarrow> SystemExit n
      | Raised e \<Rightarrow> Returned (error_json env e)
      | Returned det \<Rightarrow>
     (case imread env image_path of
        None \<Rightarrow> Returned (JObj [(''error'', JStr ''Could not load image'')])
      | Some frame \<Rightarrow>
     (let (heap1, a) = heap_alloc heap frame in
      case process_frame env det heap1 a inference_time of
        (Inl e, rest) \<Rightarrow> Returned (error_json env e)
      | (Inr (c, d), rest) \<Rightarrow>
     (case detection_results d of
        Inl e \<Rightarrow> Returned (error_json env e)
      | Inr results \<Rightarrow>
          Returned (JObj [(''detections'', JList results), (''success'', JBool True)])))))"


section \<open>A sequence of calls\<close>

text \<open>
  The front ends call \<open>process_frame\<close> once per frame on the same detector; an exception
  is caught and the next frame is processed.  Each call gets the address of its frame and
  the inference time measured in it.
\<close>

fun process_frames ::
  "('m, 't, 'px) env \<Rightarrow> ('m, 't) detector \<Rightarrow> 'px heap \<Rightarrow> (nat \<times> real) list
     \<Rightarrow> ('m, 't) detector \<times> 'px heap" where
  "process_frames env det heap [] = (det, heap)"
| "process_frames env det heap ((a, t) # calls) =
     (case process_frame env det heap a t of
        (r, det', heap') \<Rightarrow> process_frames env det' heap' calls)"

section \<open>Predicates used in the statements\<close>

text \<open>A box lies within the frame, boundary included.\<close>

definition box_in_frame :: "'px image \<Rightarrow> box \<Rightarrow> bool" where
  "box_in_frame frame b =
     (case b of (x1, y1, x2, y2) \<Rightarrow>
        0 \<le> x1 \<and> x1 \<le> real (img_width frame) \<and> 0 \<le> x2 \<and> x2 \<le> real (img_width frame) \<and>
        0 \<le> y1 \<and> y1 \<le> real (img_height frame) \<and> 0 \<le> y2 \<and> y2 \<le> real (img_height frame))"

text \<open>The two fixed overlay lines that \<open>process_frame\<close> writes last.\<close>

definition overlay_text ::
  "('m, 't, 'px) env \<Rightarrow> string \<Rightarrow> string \<Rightarrow> 'px image \<Rightarrow> 'px image" where
  "overlay_text env line1 line2 scene =
     put_text env line2 (10, 70) 1 (put_text env line1 (10, 30) 1 scene)"

text \<open>Shapes of the two JSON objects that \<open>detect_frame\<close> can emit.\<close>

fun json_field :: "string \<Rightarrow> json \<Rightarrow> json option" where
  "json_field k (JObj kvs) = map_of kvs k"
| "json_field k j = None"

definition is_error_object :: "json \<Rightarrow> bool" where
  "is_error_object j = (case json_field ''error'' j of Some (JStr msg) \<Rightarrow> True | _ \<Rightarrow> False)"

definition is_num :: "json \<Rightarrow> bool" where
  "is_num j = (case j of JNum x \<Rightarrow> True | _ \<Rightarrow> False)"

definition is_int :: "json \<Rightarrow> bool" where
  "is_int j = (case j of JInt i \<Rightarrow> True | _ \<Rightarrow> False)"

definition is_str :: "json \<Rightarrow> bool" where
  "is_str j = (case j of JStr x \<Rightarrow> True | _ \<Rightarrow> False)"

definition is_bbox :: "json \<Rightarrow> bool" where
  "is_bbox j = (case j of JList xs \<Rightarrow> length xs = 4 \<and> list_all is_num xs | _ \<Rightarrow> False)"

text \<open>An object with exactly the five fields of one detection, each of its kind.\<close>

definition is_detection_entry :: "json \<Rightarrow> bool" where
  "is_detection_entry j =
     (case j of
        JObj kvs \<Rightarrow>
          list_all2 (\<lambda>field kv. fst kv = fst field \<and> snd field (snd kv))
            [(''bbox'', is_bbox), (''track_id'', is_int), (''confidence'', is_num),
             (''class_id'', is_int), (''class_name'', is_str)] kvs
      | _ \<Rightarrow> False)"

definition is_detections_object :: "json \<Rightarrow> bool" where
  "is_detections_object j =
     (json_field ''success'' j = Some (JBool True) \<and>
      (case json_field ''detections'' j of
         Some (JList rs) \<Rightarrow> list_all is_detection_entry rs
       | _ \<Rightarrow> False))"

section \<open>A concrete environment for worked examples\<close>

text \<open>
  Stand-ins for the external libraries, used only to run the definitions on concrete
  inputs: the pixel buffer is the list of things painted so far, the tracker state counts
  its calls, and a float is rendered as its format specification.
\<close>

definition stub_exception_text :: "exn \<Rightarrow> string" where
  "stub_exception_text e =
     (case e of ExternalError msg \<Rightarrow> msg | ZeroDivisionError \<Rightarrow> ''division by zero''
      | _ \<Rightarrow> ''error'')"

definition stub_env ::
  "(string list image \<Rightarrow> detections) \<Rightarrow> (detections \<Rightarrow> detections)
     \<Rightarrow> (unit, nat, string list) env" where
  "stub_env raw trk =
     \<lparr>yolo_load = (\<lambda>path. Inr ()),
      yolo_run = (\<lambda>m pf. Inr (raw pf)),
      bytetrack_new = 0,
      bytetrack_update = (\<lambda>n d. Inr (Suc n, trk d)),
      np_zeros = (\<lambda>h w. []),
      resize_data = (\<lambda>img w h. Some []),
      draw_box = (\<lambda>d i img. img\<lparr>img_data := img_data img @ [''box'']\<rparr>),
      put_text = (\<lambda>s org sc img. img\<lparr>img_data := img_data img @ [s]\<rparr>),
      imread = (\<lambda>path. if path = ''frame.jpg''
                        then Some \<lparr>img_height = 960, img_width = 1280, img_data = []\<rparr>
                        else None),
      format_float = (\<lambda>n x. ''%.'' @ str_nat n @ ''f''),
      str_exception = stub_exception_text\<rparr>"

text \<open>A model that reports one car covering the whole image it is given.\<close>

definition full_frame_box :: "'px image \<Rightarrow> detections" where
  "full_frame_box pf =
     \<lparr>xyxy = [(0, 0, real (img_width pf), real (img_height pf))], confidence = Arr [9 / 10],
      class_id = Arr [2], tracker_id = PyNone\<rparr>"

text \<open>A model whose box reaches 60 pixels beyond the right edge of its input.\<close>

definition overshoot_box :: "'px image \<Rightarrow> detections" where
  "overshoot_box pf =
     \<lparr>xyxy = [(0, 0, real (img_width pf) + 60, real (img_height pf))], confidence = Arr [9 / 10],
      class_id = Arr [2], tracker_id = PyNone\<rparr>"

text \<open>A model that reports a car and a bus.\<close>

definition two_boxes :: "'px image \<Rightarrow> detections" where
  "two_boxes pf =
     \<lparr>xyxy = [(10, 20, 110, 220), (300, 40, 500, 400)], confidence = Arr [9 / 10, 8 / 10],
      class_id = Arr [2, 5], tracker_id = PyNone\<rparr>"

text \<open>A model that finds nothing.\<close>

definition no_boxes :: "'px image \<Rightarrow> detections" where
  "no_boxes pf = empty_detections"

text \<open>A tracker that keeps every detection and numbers them from 1.\<close>

definition number_tracks :: "detections \<Rightarrow> detections" where
  "number_tracks d = d\<lparr>tracker_id := Arr (map int [1..<Suc (len_det d)])\<rparr>"

text \<open>A tracker that keeps every detection but hands out a single identifier.\<close>

definition one_track_id :: "detections \<Rightarrow> detections" where
  "one_track_id d = d\<lparr>tracker_id := Arr [7]\<rparr>"

text \<open>The stand-in environment with a model that raises on every image.\<close>

definition failing_model_env :: "(unit, nat, string list) env" where
  "failing_model_env =
     (stub_env full_frame_box number_tracks)\<lparr>yolo_run := (\<lambda>m pf. Inl ''out of memory'')\<rparr>"

text \<open>The stand-in environment on a machine that cannot allocate arrays above 4 GiB.\<close>

definition small_memory_env :: "(unit, nat, string list) env" where
  "small_memory_env =
     (stub_env full_frame_box number_tracks)
       \<lparr>resize_data := (\<lambda>img w h. if w * h * 3 \<le> 4294967296 then Some [] else None)\<rparr>"

text \<open>The stand-in environment whose model weights cannot be loaded.\<close>

definition missing_weights_env :: "(unit, nat, string list) env" where
  "missing_weights_env =
     (stub_env full_frame_box number_tracks)\<lparr>yolo_load := (\<lambda>path. Inl ''no such file'')\<rparr>"

text \<open>A detector whose window already holds 30 rates, 1 being the oldest.\<close>

definition full_window_detector :: "(unit, nat) detector" where
  "full_window_detector =
     (new_detector (stub_env full_frame_box number_tracks) ''n'' (3 / 10) ())
       \<lparr>frame_count := 30,
        fps_history := [1, 2, 3, 4, 5, 6, 7, 8, 9, 10, 11, 12, 13, 14, 15, 16, 17, 18, 19, 20,
                        21, 22, 23, 24, 25, 26, 27, 28, 29, 30]\<rparr>"

definition stub_detector :: "(unit, nat) detector" where
  "stub_detector = new_detector (stub_env full_frame_box number_tracks) ''n'' (3 / 10) ()"

definition frame_1280x960 :: "string list image" where
  "frame_1280x960 = \<lparr>img_height = 960, img_width = 1280, img_data = []\<rparr>"

definition frame_320x240 :: "string list image" where
  "frame_320x240 = \<lparr>img_height = 240, img_width = 320, img_data = []\<rparr>"

definition frame_1920x1080 :: "string list image" where
  "frame_1920x1080 = \<lparr>img_height = 1080, img_width = 1920, img_data = []\<rparr>"

definition frame_1x500 :: "string list image" where
  "frame_1x500 = \<lparr>img_height = 500, img_width = 1, img_data = []\<rparr>"

definition frame_1280x1024 :: "string list image" where
  "frame_1280x1024 = \<lparr>img_height = 1024, img_width = 1280, img_data = []\<rparr>"

definition frame_5000000x1 :: "string list image" where
  "frame_5000000x1 = \<lparr>img_height = 1, img_width = 5000000, img_data = []\<rparr>"

definition frame_4000000x1 :: "string list image" where
  "frame_4000000x1 = \<lparr>img_height = 1, img_width = 4000000, img_data = []\<rparr>"

section \<open>Basic facts\<close>

lemma bind_exn_Inr_iff: "bind_exn r f = Inr y \<longleftrightarrow> (\<exists>x. r = Inr x \<and> f x = Inr y)"
  by (cases r) (simp_all add: bind_exn_def)

lemma bind_exn_Inl_iff:
  "bind_exn r f = Inl e \<longleftrightarrow> r = Inl e \<or> (\<exists>x. r = Inr x \<and> f x = Inl e)"
  by (cases r) (simp_all add: bind_exn_def)

lemma bind_exn_simps:
  "bind_exn (Inl e) f = Inl e"
  "bind_exn (Inr x) f = f x"
  by (simp_all add: bind_exn_def)

section \<open>\<open>process_frame\<close> laid out\<close>

lemma frame_fps_total: "frame_fps t = Inr (if t > 0 then 1 / t else 0)"
  by (simp add: frame_fps_def py_truediv_def)

lemma push_fps_nonempty: "push_fps h x \<noteq> []"
  by (cases h) (auto simp: push_fps_def Let_def)

lemma push_fps_length: "length h \<le> 30 \<Longrightarrow> length (push_fps h x) \<le> 30"
  by (cases h) (auto simp: push_fps_def Let_def)

lemma push_fps_full: "length h = 30 \<Longrightarrow> push_fps h x = tl h @ [x]"
  by (cases h) (auto simp: push_fps_def Let_def)

lemma push_fps_room: "length h < 30 \<Longrightarrow> push_fps h x = h @ [x]"
  by (auto simp: push_fps_def Let_def)

lemma push_fps_last: "last (push_fps h x) = x"
  by (cases h) (auto simp: push_fps_def Let_def)

lemma mean_fps_nonempty: "h \<noteq> [] \<Longrightarrow> mean_fps h = Inr (sum_list h / real (length h))"
  by (simp add: mean_fps_def py_truediv_def)

lemma process_frame_unfold:
  "process_frame env det heap a t =
     (case detect_stage env (model det) (heap ! a) of
        Inl e \<Rightarrow> (Inl e, det\<lparr>frame_count := frame_count det + 1\<rparr>, heap)
      | Inr (target, filtered) \<Rightarrow>
     (case track_stage env (tracker det) filtered of
        Inl e \<Rightarrow> (Inl e, det\<lparr>frame_count := frame_count det + 1\<rparr>, heap)
      | Inr (trk, vd) \<Rightarrow>
     (case make_labels env vd of
        Inl e \<Rightarrow> (Inl e, det\<lparr>frame_count := frame_count det + 1, tracker := trk\<rparr>, heap)
      | Inr labels \<Rightarrow>
         (Inr (length heap, vd),
          det\<lparr>frame_count := frame_count det + 1, tracker := trk,
              fps_history := push_fps (fps_history det) (if t > 0 then 1 / t else 0)\<rparr>,
          heap @ [overlay_text env
                    (info_text env (len_det vd)
                       (sum_list (push_fps (fps_history det) (if t > 0 then 1 / t else 0))
                          / real (length (push_fps (fps_history det) (if t > 0 then 1 / t else 0))))
                       (frame_count det + 1))
                    (inference_text env t target)
                    (draw_labels env (xyxy vd) labels (box_annotate env vd (heap ! a)))]))))"
  by (simp add: process_frame_def Let_def heap_alloc_def frame_fps_total mean_fps_nonempty
      push_fps_nonempty overlay_text_def split: sum.splits prod.splits)

section \<open>The class filter\<close>

lemma np_mask_all_True:
  assumes "length m = length xs" and "\<forall>b\<in>set m. b"
  shows "np_mask m xs = Inr xs"
proof -
  have "filter snd (zip xs m) = zip xs m"
    using assms(2) by (auto simp: filter_id_conv dest: set_zip_rightD)
  then show ?thesis using assms(1) by (simp add: np_mask_def)
qed

lemma np_mask_length:
  assumes "np_mask m xs = Inr ys"
  shows "length ys = length (filter id m)"
proof -
  from assms have l: "length m = length xs" and ys: "ys = map fst (filter snd (zip xs m))"
    by (auto simp: np_mask_def split: if_splits)
  have "map snd (filter snd (zip xs m)) = filter id (map snd (zip xs m))"
    by (simp add: filter_map comp_def)
  then have "length (filter snd (zip xs m)) = length (filter id m)"
    using l by (metis length_map map_snd_zip)
  then show ?thesis using ys by simp
qed

lemma np_mask_pred: "np_mask (map P cs) cs = Inr ys \<Longrightarrow> ys = filter P cs"
  by (induction cs arbitrary: ys) (auto simp: np_mask_def)

lemma attr_mask_all_True:
  assumes "attr_mask m a = Inr a'" and "length m' = length (filter id m)" and "\<forall>b\<in>set m'. b"
  shows "attr_mask m' a' = Inr a'"
  using assms by (cases a) (auto simp: np_mask_all_True dest!: np_mask_length split: sum.splits)

lemma filter_vehicles_again:
  assumes "filter_vehicles d = Inr d'"
  shows "filter_vehicles d' = Inr d'"
proof (cases "len_det d = 0")
  case True
  with assms show ?thesis by (simp add: filter_vehicles_def)
next
  case False
  with assms obtain cs where cs: "class_id d = Arr cs"
    and g: "getitem_mask d (map is_vehicle_class cs) = Inr d'"
    by (auto simp: filter_vehicles_def split: attr.splits)
  let ?m = "map is_vehicle_class cs"
  from g obtain bs cf ci ti where
    bs: "np_mask ?m (xyxy d) = Inr bs" and cf: "attr_mask ?m (confidence d) = Inr cf"
    and ci: "attr_mask ?m (class_id d) = Inr ci" and ti: "attr_mask ?m (tracker_id d) = Inr ti"
    and d': "d' = \<lparr>xyxy = bs, confidence = cf, class_id = ci, tracker_id = ti\<rparr>"
    by (auto simp: getitem_mask_def bind_exn_Inr_iff)
  from ci cs obtain cs' where cs': "ci = Arr cs'" "np_mask ?m cs = Inr cs'"
    by (auto split: sum.splits)
  then have f: "cs' = filter is_vehicle_class cs" by (simp add: np_mask_pred)
  let ?m' = "map is_vehicle_class cs'"
  have all: "\<forall>b\<in>set ?m'. b" using f by auto
  have len: "length ?m' = length (filter id ?m)" using f by (simp add: filter_map comp_def)
  have lbs: "length bs = length ?m'" using np_mask_length[OF bs] len by simp
  have 1: "np_mask ?m' bs = Inr bs" by (rule np_mask_all_True[OF lbs[symmetric] all])
  have 2: "attr_mask ?m' cf = Inr cf" by (rule attr_mask_all_True[OF cf len all])
  have 3: "attr_mask ?m' ci = Inr ci" by (rule attr_mask_all_True[OF ci len all])
  have 4: "attr_mask ?m' ti = Inr ti" by (rule attr_mask_all_True[OF ti len all])
  show ?thesis
    using 1 2 3 4 cs'(1)
    by (simp add: filter_vehicles_def d' getitem_mask_def bind_exn_def len_det_def)
qed

text \<open>
  Claim C4.  Filtering is idempotent: running \<open>filter_vehicles\<close> on its own result gives
  that result again, for every detections object (when the first run raises, there is no
  result to filter and the exception stands).
\<close>

theorem filter_vehicles_idempotent:
  "bind_exn (filter_vehicles d) filter_vehicles = filter_vehicles d"
proof (cases "filter_vehicles d")
  case (Inl e)
  then show ?thesis by (simp add: bind_exn_def)
next
  case (Inr d')
  then show ?thesis using filter_vehicles_again[OF Inr] by (simp add: bind_exn_def)
qed

lemma np_mask_subset: "np_mask m xs = Inr ys \<Longrightarrow> set ys \<subseteq> set xs"
proof -
  assume a: "np_mask m xs = Inr ys"
  then have ys: "ys = map fst (filter snd (zip xs m))"
    by (auto simp: np_mask_def split: if_splits)
  have "set (map fst (filter snd (zip xs m))) \<subseteq> set (map fst (zip xs m))" by auto
  also have "\<dots> \<subseteq> set xs" by (auto elim: in_set_zipE)
  finally show ?thesis using ys by simp
qed

lemma filter_vehicles_subset:
  assumes "filter_vehicles d = Inr vd"
  shows "set (xyxy vd) \<subseteq> set (xyxy d)"
proof (cases "len_det d = 0")
  case True
  with assms show ?thesis by (simp add: filter_vehicles_def)
next
  case False
  with assms obtain cs where "getitem_mask d (map is_vehicle_class cs) = Inr vd"
    by (auto simp: filter_vehicles_def split: attr.splits)
  then obtain bs where "np_mask (map is_vehicle_class cs) (xyxy d) = Inr bs" "xyxy vd = bs"
    by (auto simp: getitem_mask_def bind_exn_Inr_iff)
  then show ?thesis using np_mask_subset by blast
qed

section \<open>The target size\<close>

lemma py_int_of_nat_div: "nat (py_int (real a / real b)) = a div b"
proof -
  have "0 \<le> real a / real b" by simp
  then have "py_int (real a / real b) = \<lfloor>real a / real b\<rfloor>" by (simp add: py_int_def)
  also have "\<dots> = int (a div b)" by (rule floor_divide_of_nat_eq)
  finally show ?thesis by simp
qed

lemma target_size_pos:
  "0 < img_height frame \<Longrightarrow>
     target_size frame = Inr (img_width frame * 480 div img_height frame, 480)"
  unfolding target_size_def py_truediv_def bind_exn_def
  using py_int_of_nat_div[of "img_width frame * 480" "img_height frame"] by simp

lemma target_size_zero_height:
  "img_height frame = 0 \<Longrightarrow> target_size frame = Inl ZeroDivisionError"
  by (simp add: target_size_def py_truediv_def bind_exn_def)

lemma target_width_pos_iff:
  "0 < (h::nat) \<Longrightarrow> 0 < w * 480 div h \<longleftrightarrow> h \<le> w * 480"
  by (simp add: div_greater_zero_iff)

lemma inference_frame_ok:
  assumes "0 < img_height frame" and "img_height frame \<le> img_width frame * 480"
    and "img_width frame * 480 div img_height frame \<le> c_int_max"
    and "resize_data env frame (img_width frame * 480 div img_height frame) 480 = Some px"
  shows "inference_frame env frame =
           Inr \<lparr>img_height = 480, img_width = img_width frame * 480 div img_height frame,
                img_data = px\<rparr>"
proof -
  have w: "0 < img_width frame" using assms(1,2) by (cases "img_width frame") auto
  have tw: "0 < img_width frame * 480 div img_height frame"
    using assms(1,2) by (simp add: target_width_pos_iff)
  have "(480::nat) \<le> c_int_max" by (simp add: c_int_max_def)
  then show ?thesis
    using assms(1,3,4) w tw
    by (simp add: inference_frame_def target_size_pos bind_exn_def cv2_resize_def)
qed

lemma inference_frame_rejects:
  assumes "img_height frame = 0 \<or> img_width frame * 480 < img_height frame
           \<or> c_int_max < img_width frame * 480 div img_height frame
           \<or> resize_data env frame (img_width frame * 480 div img_height frame) 480 = None"
  shows "\<exists>e. inference_frame env frame = Inl e"
proof (cases "img_height frame = 0")
  case True
  then show ?thesis by (simp add: inference_frame_def target_size_zero_height bind_exn_def)
next
  case False
  then have h: "0 < img_height frame" by simp
  from assms False have
    "img_width frame * 480 div img_height frame = 0
     \<or> c_int_max < img_width frame * 480 div img_height frame
     \<or> resize_data env frame (img_width frame * 480 div img_height frame) 480 = None"
    by auto
  then show ?thesis
    using h by (auto simp: inference_frame_def target_size_pos bind_exn_def cv2_resize_def)
qed

lemma detect_stage_via_inference_frame:
  "detect_stage env m frame =
     bind_exn (target_size frame) (\<lambda>target.
     bind_exn (inference_frame env frame) (\<lambda>processed_frame.
     bind_exn (external (yolo_run env m processed_frame)) (\<lambda>raw.
     bind_exn (rescale (img_width frame, img_height frame) target raw) (\<lambda>d.
     bind_exn (filter_vehicles d) (\<lambda>vehicle_detections.
       Inr (target, vehicle_detections))))))"
  by (cases "target_size frame") (simp_all add: detect_stage_def inference_frame_def bind_exn_def)

section \<open>Running the definitions on concrete inputs\<close>

lemma binade_up_numeral:
  "binade_up (numeral k) x = (if x < 2 then 0 else 1 + binade_up (pred_numeral k) (x / 2))"
  by (simp add: numeral_eq_Suc)

lemma binade_down_numeral:
  "binade_down (numeral k) x = (if 1 \<le> x then 0 else binade_down (pred_numeral k) (2 * x) - 1)"
  by (simp add: numeral_eq_Suc)

lemmas float_eval =
  mul_f32_def f32_def f64_def round_binary_def round_half_even_def pow2_def
  binade_up_numeral binade_down_numeral

lemmas stub_eval =
  stub_env_def failing_model_env_def missing_weights_env_def small_memory_env_def
  full_window_detector_def
  stub_detector_def new_detector_def stub_exception_text_def
  full_frame_box_def overshoot_box_def two_boxes_def no_boxes_def empty_detections_def
  number_tracks_def one_track_id_def
  frame_1280x960_def frame_320x240_def frame_1920x1080_def frame_1x500_def
  frame_1280x1024_def frame_5000000x1_def frame_4000000x1_def

lemmas model_eval =
  process_frame_def detect_stage_def inference_frame_def target_size_def py_truediv_def
  py_int_def bind_exn_def cv2_resize_def c_int_max_def external_def rescale_def len_det_def
  float_eval
  mk_detections_def scale_box_def filter_vehicles_def getitem_mask_def np_mask_def
  is_vehicle_class_def vehicle_classes_def track_stage_def make_labels_def label_at_def
  class_name_of_def heap_alloc_def box_annotate_def draw_labels_def label_org_def
  frame_fps_def push_fps_def mean_fps_def info_text_def inference_text_def Let_def
  str_nat.simps str_int_def digit_char_def overlay_text_def

section \<open>Downsizing before inference\<close>

text \<open>
  Claim C5 as stated fails.  A frame 1 pixel wide and 500 high gets the target width
  \<open>int(1 * 480 / 500) = 0\<close>, which \<open>cv2.resize\<close> rejects, so no inference runs.  A frame
  5000000 wide and 1 high gets the target width 2400000000, which does not fit a C \<open>int\<close>,
  and \<open>cv2.resize\<close> rejects it too; a frame 4000000 wide and 1 high asks for an array of
  1920000000 by 480 pixels, which a machine without that much memory cannot allocate.  For
  a 1920 by 1080 frame the width is truncated to 853, so the aspect ratio is kept only up
  to one pixel (\<open>853 * 1080 \<noteq> 1920 * 480\<close>).
\<close>

theorem downsize_counterexample:
  "fst (process_frame (stub_env full_frame_box number_tracks) stub_detector [frame_1x500] 0 (1 / 50))
     = Inl CvError
   \<and> fst (process_frame (stub_env full_frame_box number_tracks) stub_detector [frame_5000000x1] 0
            (1 / 50))
     = Inl CvError
   \<and> fst (process_frame small_memory_env stub_detector [frame_4000000x1] 0 (1 / 50)) = Inl CvError
   \<and> inference_frame (stub_env full_frame_box number_tracks) frame_1920x1080
     = Inr \<lparr>img_height = 480, img_width = 853, img_data = []\<rparr>
   \<and> (853::nat) * 1080 \<noteq> 1920 * 480"
  by (simp add: stub_eval model_eval)

text \<open>
  Claim C5, amended.  For every frame of positive height with \<open>height \<le> width * 480\<close>,
  whatever the height (below 480 included), whose target width \<open>width * 480 div height\<close>
  (the quotient rounded down) fits a C \<open>int\<close> and for which \<open>cv2.resize\<close> can produce the
  target array, the model is run on a resized copy whose height is exactly 480 and whose
  width is that target width; the stage up to filtering is the model call on that copy
  followed by rescaling and filtering.
\<close>

theorem inference_on_resized_copy:
  assumes "0 < img_height frame" and "img_height frame \<le> img_width frame * 480"
    and "img_width frame * 480 div img_height frame \<le> c_int_max"
    and "resize_data env frame (img_width frame * 480 div img_height frame) 480 = Some px"
  shows "\<exists>processed_frame.
           inference_frame env frame = Inr processed_frame
         \<and> img_height processed_frame = 480
         \<and> img_width processed_frame = img_width frame * 480 div img_height frame
         \<and> detect_stage env m frame =
             bind_exn (external (yolo_run env m processed_frame)) (\<lambda>raw.
             bind_exn (rescale (img_width frame, img_height frame)
                         (img_width processed_frame, img_height processed_frame) raw) (\<lambda>d.
             bind_exn (filter_vehicles d) (\<lambda>vehicle_detections.
               Inr ((img_width processed_frame, img_height processed_frame), vehicle_detections))))"
  using inference_frame_ok[OF assms] target_size_pos[OF assms(1)]
  by (simp add: detect_stage_via_inference_frame bind_exn_simps)

text \<open>A 320 by 240 frame, lower than 480, is enlarged to 640 by 480.\<close>

theorem inference_on_resized_copy_witness:
  "0 < img_height frame_320x240 \<and> img_height frame_320x240 \<le> img_width frame_320x240 * 480
   \<and> img_width frame_320x240 * 480 div img_height frame_320x240 \<le> c_int_max
   \<and> resize_data (stub_env full_frame_box number_tracks) frame_320x240
        (img_width frame_320x240 * 480 div img_height frame_320x240) 480 = Some []
   \<and> inference_frame (stub_env full_frame_box number_tracks) frame_320x240
       = Inr \<lparr>img_height = 480, img_width = 640, img_data = []\<rparr>"
  using inference_on_resized_copy[of frame_320x240 "stub_env full_frame_box number_tracks" "[]" "()"]
  by (simp add: stub_eval model_eval)

section \<open>Rescaled boxes and the frame\<close>

lemma detect_stage_success:
  assumes "detect_stage env m frame = Inr (target, vd)"
  obtains pf raw d where
    "target_size frame = Inr target"
    "cv2_resize env frame target = Inr pf"
    "img_width pf = fst target" "img_height pf = snd target"
    "0 < fst target" "0 < snd target"
    "yolo_run env m pf = Inr raw"
    "rescale (img_width frame, img_height frame) target raw = Inr d"
    "filter_vehicles d = Inr vd"
proof -
  from assms obtain tg pf raw d where
    tg: "target_size frame = Inr tg" and pf: "cv2_resize env frame tg = Inr pf"
    and raw: "external (yolo_run env m pf) = Inr raw"
    and d: "rescale (img_width frame, img_height frame) tg raw = Inr d"
    and vd: "filter_vehicles d = Inr vd" and eq: "tg = target"
    by (auto simp: detect_stage_def bind_exn_Inr_iff)
  from pf have shape: "img_width pf = fst tg" "img_height pf = snd tg" "0 < fst tg" "0 < snd tg"
    by (auto simp: cv2_resize_def split: prod.splits if_splits option.splits)
  from raw have "yolo_run env m pf = Inr raw"
    by (auto simp: external_def split: sum.splits)
  with tg pf shape d vd eq that show ?thesis by blast
qed

lemma target_size_height: "target_size frame = Inr target \<Longrightarrow> snd target = 480"
  by (auto simp: target_size_def bind_exn_Inr_iff)

lemma rescale_boxes:
  assumes "rescale (w, h) (tw, th) raw = Inr d"
  shows "xyxy d = map (scale_box (f64 (real w / real tw)) (f64 (real h / real th))) (xyxy raw)"
proof (cases "len_det raw > 0")
  case False
  with assms show ?thesis by (simp add: rescale_def len_det_def)
next
  case True
  with assms obtain qx qy where
    qx: "py_truediv (real w) (real tw) = Inr qx" and qy: "py_truediv (real h) (real th) = Inr qy"
    and mk: "mk_detections (map (scale_box (f64 qx) (f64 qy)) (xyxy raw)) (confidence raw)
               (class_id raw) = Inr d"
    by (auto simp: rescale_def bind_exn_Inr_iff Let_def)
  from qx qy have "qx = real w / real tw" "qy = real h / real th"
    by (auto simp: py_truediv_def split: if_splits)
  with mk show ?thesis
    by (auto simp: mk_detections_def split: if_splits)
qed

lemma track_stage_subset:
  assumes "track_stage env trk filtered = Inr (trk', vd)"
    and "\<And>s d s' d'. bytetrack_update env s d = Inr (s', d') \<Longrightarrow> set (xyxy d') \<subseteq> set (xyxy d)"
  shows "set (xyxy vd) \<subseteq> set (xyxy filtered)"
proof (cases "len_det filtered > 0")
  case True
  with assms(1) have "bytetrack_update env trk filtered = Inr (trk', vd)"
    by (auto simp: track_stage_def external_def split: sum.splits)
  then show ?thesis by (rule assms(2))
next
  case False
  with assms(1) show ?thesis by (simp add: track_stage_def)
qed

lemma process_frame_success:
  assumes "process_frame env det heap a t = (Inr (c, vd), det', heap')"
  obtains target filtered trk labels where
    "detect_stage env (model det) (heap ! a) = Inr (target, filtered)"
    "track_stage env (tracker det) filtered = Inr (trk, vd)"
    "make_labels env vd = Inr labels"
    "c = length heap"
    "det' = det\<lparr>frame_count := frame_count det + 1, tracker := trk,
              fps_history := push_fps (fps_history det) (if t > 0 then 1 / t else 0)\<rparr>"
    "heap' = heap @ [overlay_text env
                    (info_text env (len_det vd)
                       (sum_list (fps_history det') / real (length (fps_history det')))
                       (frame_count det'))
                    (inference_text env t target)
                    (draw_labels env (xyxy vd) labels (box_annotate env vd (heap ! a)))]"
  using assms unfolding process_frame_unfold
  by (auto split: sum.splits prod.splits)

text \<open>
  Claim C1 as stated fails, in two ways.  The rescaled boxes are not clamped: a model box
  that reaches beyond the right edge of the 640 by 480 inference image is scaled to
  \<open>x2 = 1400\<close> on a frame that is 1280 wide.  And the scaling is a \<open>float32\<close> product:
  on a 1280 by 1024 frame, inferred at 600 by 480, the box that covers the whole inference
  image comes back with \<open>x2 = 10485761 / 8192 = 1280 + 1/8192\<close>, one unit in the last
  place beyond the frame.
\<close>

theorem rescaled_box_outside_frame:
  "fst (process_frame (stub_env overshoot_box number_tracks) stub_detector [frame_1280x960] 0 (1 / 50))
     = Inr (1, \<lparr>xyxy = [(0, 0, 1400, 960)], confidence = Arr [9 / 10], class_id = Arr [2],
               tracker_id = Arr [1]\<rparr>)
   \<and> \<not> box_in_frame frame_1280x960 (0, 0, 1400, 960)
   \<and> fst (process_frame (stub_env full_frame_box number_tracks) stub_detector [frame_1280x1024] 0
            (1 / 50))
     = Inr (1, \<lparr>xyxy = [(0, 0, 10485761 / 8192, 1024)], confidence = Arr [9 / 10],
               class_id = Arr [2], tracker_id = Arr [1]\<rparr>)
   \<and> \<not> box_in_frame frame_1280x1024 (0, 0, 10485761 / 8192, 1024)"
  by (simp add: stub_eval model_eval box_in_frame_def)

text \<open>
  Claim C1, amended.  \<open>process_frame\<close> runs the model on the resized image and multiplies,
  in \<open>float32\<close>, the x coordinates of every box the model reports by
  \<open>frame_width / target_width\<close> and the y coordinates by \<open>frame_height / 480\<close>; when the
  tracker returns boxes from among those it received, every returned box is such a product,
  so no returned coordinate is left in inference-resolution space.  The products are not
  clamped to the frame.
\<close>

theorem returned_boxes_are_rescaled:
  assumes "process_frame env det heap a t = (Inr (c, vd), det', heap')"
    and "\<forall>s d s' d'. bytetrack_update env s d = Inr (s', d') \<longrightarrow> set (xyxy d') \<subseteq> set (xyxy d)"
  shows "\<exists>pf raw.
           inference_frame env (heap ! a) = Inr pf
         \<and> img_height pf = 480
         \<and> yolo_run env (model det) pf = Inr raw
         \<and> set (xyxy vd) \<subseteq>
             scale_box (f64 (real (img_width (heap ! a)) / real (img_width pf)))
                       (f64 (real (img_height (heap ! a)) / 480))
               ` set (xyxy raw)"
proof -
  from assms(1) obtain target filtered trk where
    ds: "detect_stage env (model det) (heap ! a) = Inr (target, filtered)"
    and ts: "track_stage env (tracker det) filtered = Inr (trk, vd)"
    by (rule process_frame_success)
  from ds obtain pf raw d where
    tg: "target_size (heap ! a) = Inr target"
    and pf: "cv2_resize env (heap ! a) target = Inr pf"
    and shape: "img_width pf = fst target" "img_height pf = snd target"
    and raw: "yolo_run env (model det) pf = Inr raw"
    and d: "rescale (img_width (heap ! a), img_height (heap ! a)) target raw = Inr d"
    and fv: "filter_vehicles d = Inr filtered"
    by (rule detect_stage_success)
  have inf: "inference_frame env (heap ! a) = Inr pf"
    using tg pf by (simp add: inference_frame_def bind_exn_simps)
  have h: "img_height pf = 480"
    using shape(2) target_size_height[OF tg] by simp
  have "rescale (img_width (heap ! a), img_height (heap ! a)) (img_width pf, 480) raw = Inr d"
    using d shape h by (cases target) simp
  from rescale_boxes[OF this] have boxes:
    "set (xyxy d) = scale_box (f64 (real (img_width (heap ! a)) / real (img_width pf)))
                              (f64 (real (img_height (heap ! a)) / 480)) ` set (xyxy raw)"
    by simp
  have "set (xyxy vd) \<subseteq> set (xyxy filtered)"
  proof (rule track_stage_subset[OF ts])
    fix s d s' d'
    assume "bytetrack_update env s d = Inr (s', d')"
    with assms(2) show "set (xyxy d') \<subseteq> set (xyxy d)" by blast
  qed
  with filter_vehicles_subset[OF fv] boxes inf h raw show ?thesis by blast
qed

text \<open>
  A car and a bus on a 1280 by 960 frame inferred at 640 by 480: both returned boxes are
  the model's boxes times 2.
\<close>

theorem returned_boxes_are_rescaled_witness:
  "process_frame (stub_env two_boxes number_tracks) stub_detector [frame_1280x960] 0 (1 / 50)
     = (Inr (1, \<lparr>xyxy = [(20, 40, 220, 440), (600, 80, 1000, 800)],
                 confidence = Arr [9 / 10, 8 / 10], class_id = Arr [2, 5],
                 tracker_id = Arr [1, 2]\<rparr>),
        stub_detector\<lparr>frame_count := 1, tracker := 1, fps_history := [50]\<rparr>,
        [frame_1280x960,
         frame_1280x960\<lparr>img_data :=
           [''box'', ''box'', ''ID:1 car %.2f'', ''ID:2 bus %.2f'',
            ''Vehicles: 2 | FPS: %.1f | Frame: 1'',
            ''Inference: %.1fms | Processed: 640x480'']\<rparr>])
   \<and> (\<exists>pf raw.
         inference_frame (stub_env two_boxes number_tracks) ([frame_1280x960] ! 0) = Inr pf
       \<and> img_height pf = 480
       \<and> yolo_run (stub_env two_boxes number_tracks) (model stub_detector) pf = Inr raw
       \<and> set [(20, 40, 220, 440), (600, 80, 1000, 800)] \<subseteq>
           scale_box (f64 (real (img_width ([frame_1280x960] ! 0)) / real (img_width pf)))
                     (f64 (real (img_height ([frame_1280x960] ! 0)) / 480))
             ` set (xyxy raw))"
proof -
  let ?env = "stub_env two_boxes number_tracks"
  have run: "process_frame ?env stub_detector [frame_1280x960] 0 (1 / 50)
     = (Inr (1, \<lparr>xyxy = [(20, 40, 220, 440), (600, 80, 1000, 800)],
                 confidence = Arr [9 / 10, 8 / 10], class_id = Arr [2, 5],
                 tracker_id = Arr [1, 2]\<rparr>),
        stub_detector\<lparr>frame_count := 1, tracker := 1, fps_history := [50]\<rparr>,
        [frame_1280x960,
         frame_1280x960\<lparr>img_data :=
           [''box'', ''box'', ''ID:1 car %.2f'', ''ID:2 bus %.2f'',
            ''Vehicles: 2 | FPS: %.1f | Frame: 1'',
            ''Inference: %.1fms | Processed: 640x480'']\<rparr>])"
    by (simp add: stub_eval model_eval upt_rec)
  have tracker_ok: "\<forall>s d s' d'. bytetrack_update ?env s d = Inr (s', d')
                    \<longrightarrow> set (xyxy d') \<subseteq> set (xyxy d)"
    by (auto simp: stub_env_def number_tracks_def)
  from returned_boxes_are_rescaled[OF run tracker_ok] run
  show ?thesis by simp
qed

section \<open>The annotated frame\<close>

lemma box_annotate_none: "len_det vd = 0 \<Longrightarrow> box_annotate env vd scene = scene"
  by (simp add: box_annotate_def)

lemma draw_labels_none: "draw_labels env [] labels scene = scene"
  by (simp add: draw_labels_def)

text \<open>
  Claim C2.  When \<open>process_frame\<close> returns an empty detection set, the heap afterwards is
  the heap before with one new array appended: no existing array, the input frame included,
  is written to.  The new array, which is the one returned, is the input frame with only
  the two overlay lines painted on it: the vehicle-count/FPS/frame-count line at (10, 30)
  and the inference-time line at (10, 70).
\<close>

theorem zero_detections_only_overlay:
  assumes "process_frame env det heap a t = (Inr (c, vd), det', heap')"
    and "len_det vd = 0"
    and "a < length heap"
  shows "c = length heap \<and> c \<noteq> a \<and> heap' ! a = heap ! a \<and> take (length heap) heap' = heap
       \<and> length heap' = length heap + 1
       \<and> heap' ! c =
            overlay_text env
              (info_text env 0 (sum_list (fps_history det') / real (length (fps_history det')))
                 (frame_count det'))
              (inference_text env t
                 (img_width (heap ! a) * 480 div img_height (heap ! a), 480))
              (heap ! a)"
proof -
  from assms(1) obtain target filtered trk labels where
    ds: "detect_stage env (model det) (heap ! a) = Inr (target, filtered)"
    and c: "c = length heap"
    and heap': "heap' = heap @ [overlay_text env
                    (info_text env (len_det vd)
                       (sum_list (fps_history det') / real (length (fps_history det')))
                       (frame_count det'))
                    (inference_text env t target)
                    (draw_labels env (xyxy vd) labels (box_annotate env vd (heap ! a)))]"
    by (rule process_frame_success)
  from ds obtain tg where tg: "target_size (heap ! a) = Inr tg" "tg = target"
    by (auto simp: detect_stage_def bind_exn_Inr_iff)
  have h: "0 < img_height (heap ! a)"
  proof (rule ccontr)
    assume "\<not> 0 < img_height (heap ! a)"
    then have "target_size (heap ! a) = Inl ZeroDivisionError"
      by (simp add: target_size_zero_height)
    with tg show False by simp
  qed
  have target: "target = (img_width (heap ! a) * 480 div img_height (heap ! a), 480)"
    using tg target_size_pos[OF h] by simp
  have xy: "xyxy vd = []" using assms(2) by (simp add: len_det_def)
  have new: "heap' = heap @ [overlay_text env
                    (info_text env 0
                       (sum_list (fps_history det') / real (length (fps_history det')))
                       (frame_count det'))
                    (inference_text env t
                       (img_width (heap ! a) * 480 div img_height (heap ! a), 480))
                    (heap ! a)]"
    using heap' by (simp add: assms(2) xy draw_labels_none box_annotate_none target)
  show ?thesis
    using assms(3) c by (simp add: new nth_append)
qed

text \<open>A model that finds nothing: the copy carries the two overlay lines and nothing else.\<close>

theorem zero_detections_only_overlay_witness:
  "process_frame (stub_env no_boxes number_tracks) stub_detector [frame_1280x960] 0 (1 / 50)
     = (Inr (1, empty_detections),
        stub_detector\<lparr>frame_count := 1, fps_history := [50]\<rparr>,
        [frame_1280x960,
         frame_1280x960\<lparr>img_data :=
           [''Vehicles: 0 | FPS: %.1f | Frame: 1'',
            ''Inference: %.1fms | Processed: 640x480'']\<rparr>])
   \<and> len_det empty_detections = 0 \<and> (0::nat) < length [frame_1280x960]
   \<and> [frame_1280x960,
         frame_1280x960\<lparr>img_data :=
           [''Vehicles: 0 | FPS: %.1f | Frame: 1'',
            ''Inference: %.1fms | Processed: 640x480'']\<rparr>] ! 0 = frame_1280x960"
proof -
  have run: "process_frame (stub_env no_boxes number_tracks) stub_detector [frame_1280x960] 0 (1 / 50)
     = (Inr (1, empty_detections),
        stub_detector\<lparr>frame_count := 1, fps_history := [50]\<rparr>,
        [frame_1280x960,
         frame_1280x960\<lparr>img_data :=
           [''Vehicles: 0 | FPS: %.1f | Frame: 1'',
            ''Inference: %.1fms | Processed: 640x480'']\<rparr>])"
    by (simp add: stub_eval model_eval)
  have e: "len_det empty_detections = 0" by (simp add: len_det_def empty_detections_def)
  have l: "(0::nat) < length [frame_1280x960]" by simp
  from zero_detections_only_overlay[OF run e l] run e l show ?thesis by simp
qed

section \<open>Labels\<close>

text \<open>The label of the \<open>i\<close>-th detection when a track identifier is at hand.\<close>

lemma labels_loop_tracked:
  assumes "i + length ps \<le> length ts"
  shows "labels_loop env (Arr ts) i ps =
           Inr (map (\<lambda>k. ''ID:'' @ str_int (ts ! (i + k)) @ '' '' @ class_name_of (fst (ps ! k))
                           @ '' '' @ format_float env 2 (snd (ps ! k))) [0..<length ps])"
  using assms
proof (induction ps arbitrary: i)
  case Nil
  then show ?case by simp
next
  case (Cons p ps)
  obtain c cf where p: "p = (c, cf)" by (cases p)
  from Cons.prems have i: "i < length ts" and rest: "Suc i + length ps \<le> length ts" by simp_all
  have "[0..<length (p # ps)] = 0 # map Suc [0..<length ps]"
    by (simp add: upt_conv_Cons map_Suc_upt del: upt_Suc)
  then show ?case
    using i by (simp add: p Cons.IH[OF rest] label_at_def bind_exn_simps comp_def del: upt_Suc)
qed

lemma make_labels_tracked:
  assumes "class_id vd = Arr cs" and "confidence vd = Arr cfs" and "tracker_id vd = Arr ts"
    and "length cs = n" and "length cfs = n" and "length ts = n"
  shows "make_labels env vd =
           Inr (map (\<lambda>i. ''ID:'' @ str_int (ts ! i) @ '' '' @ class_name_of (cs ! i)
                           @ '' '' @ format_float env 2 (cfs ! i)) [0..<n])"
proof -
  have "labels_loop env (Arr ts) 0 (zip cs cfs) =
          Inr (map (\<lambda>k. ''ID:'' @ str_int (ts ! (0 + k)) @ '' '' @ class_name_of (fst (zip cs cfs ! k))
                           @ '' '' @ format_float env 2 (snd (zip cs cfs ! k))) [0..<length (zip cs cfs)])"
    by (rule labels_loop_tracked) (simp add: assms)
  then show ?thesis
    using assms by (simp add: make_labels_def cong: map_cong)
qed

text \<open>
  The other branch of the label loop: without a track identifier for index \<open>i\<close> the label
  is the class name and the confidence only.
\<close>

lemma label_without_track_id:
  "tids = Missing \<or> (\<exists>ts. tids = Arr ts \<and> length ts \<le> i) \<Longrightarrow>
     label_at env tids i c cf = Inr (class_name_of c @ '' '' @ format_float env 2 cf)"
  by (auto simp: label_at_def)

lemma draw_labels_by_index:
  "draw_labels env bs (map f [0..<length bs]) scene =
     fold (\<lambda>i. put_text env (f i) (label_org (bs ! i)) (6 / 10)) [0..<length bs] scene"
proof -
  have "zip bs (map f [0..<length bs]) = map (\<lambda>i. (bs ! i, f i)) [0..<length bs]"
    by (rule nth_equalityI) simp_all
  then show ?thesis
    by (simp add: draw_labels_def fold_map comp_def)
qed

text \<open>
  Claim C6.  For a returned detection set whose arrays of class ids, confidences and track
  ids cover every detection (what the tracker hands back), the returned array is a new copy
  of the original frame on which, after the boxes, one label per detection is painted at
  \<open>(int(x1), int(y1) - 10)\<close>, and the label of the \<open>i\<close>-th detection is
  \<open>ID:<track id> <class name> <confidence with two decimals>\<close>; the two overlay lines
  follow.
\<close>

theorem tracked_detections_labelled:
  assumes "process_frame env det heap a t = (Inr (c, vd), det', heap')"
    and "class_id vd = Arr cs" and "confidence vd = Arr cfs" and "tracker_id vd = Arr ts"
    and "length cs = len_det vd" and "length cfs = len_det vd" and "length ts = len_det vd"
  shows "c = length heap \<and> take (length heap) heap' = heap
       \<and> (\<exists>line1 line2.
            heap' ! c =
              overlay_text env line1 line2
                (fold (\<lambda>i. put_text env
                               (''ID:'' @ str_int (ts ! i) @ '' '' @ class_name_of (cs ! i)
                                  @ '' '' @ format_float env 2 (cfs ! i))
                               (label_org (xyxy vd ! i)) (6 / 10))
                   [0..<len_det vd]
                   (box_annotate env vd (heap ! a))))"
proof -
  from assms(1) obtain target labels where
    labels: "make_labels env vd = Inr labels"
    and c: "c = length heap"
    and heap': "heap' = heap @ [overlay_text env
                    (info_text env (len_det vd)
                       (sum_list (fps_history det') / real (length (fps_history det')))
                       (frame_count det'))
                    (inference_text env t target)
                    (draw_labels env (xyxy vd) labels (box_annotate env vd (heap ! a)))]"
    by (rule process_frame_success)
  let ?f = "\<lambda>i. ''ID:'' @ str_int (ts ! i) @ '' '' @ class_name_of (cs ! i)
                  @ '' '' @ format_float env 2 (cfs ! i)"
  have "labels = map ?f [0..<length (xyxy vd)]"
    using labels make_labels_tracked[OF assms(2-7), of env] by (simp add: len_det_def)
  then have "draw_labels env (xyxy vd) labels (box_annotate env vd (heap ! a)) =
               fold (\<lambda>i. put_text env (?f i) (label_org (xyxy vd ! i)) (6 / 10))
                 [0..<len_det vd] (box_annotate env vd (heap ! a))"
    by (simp add: draw_labels_by_index len_det_def)
  then show ?thesis
    using c heap' by (auto simp: nth_append)
qed

text \<open>A car and a bus, tracked as 1 and 2, on a 1280 by 960 frame.\<close>

theorem tracked_detections_labelled_witness:
  "process_frame (stub_env two_boxes number_tracks) stub_detector [frame_1280x960] 0 (1 / 50)
     = (Inr (1, \<lparr>xyxy = [(20, 40, 220, 440), (600, 80, 1000, 800)],
                 confidence = Arr [9 / 10, 8 / 10], class_id = Arr [2, 5],
                 tracker_id = Arr [1, 2]\<rparr>),
        stub_detector\<lparr>frame_count := 1, tracker := 1, fps_history := [50]\<rparr>,
        [frame_1280x960,
         frame_1280x960\<lparr>img_data :=
           [''box'', ''box'', ''ID:1 car %.2f'', ''ID:2 bus %.2f'',
            ''Vehicles: 2 | FPS: %.1f | Frame: 1'',
            ''Inference: %.1fms | Processed: 640x480'']\<rparr>])
   \<and> take (length [frame_1280x960])
        [frame_1280x960,
         frame_1280x960\<lparr>img_data :=
           [''box'', ''box'', ''ID:1 car %.2f'', ''ID:2 bus %.2f'',
            ''Vehicles: 2 | FPS: %.1f | Frame: 1'',
            ''Inference: %.1fms | Processed: 640x480'']\<rparr>] = [frame_1280x960]"
proof -
  let ?vd = "\<lparr>xyxy = [(20, 40, 220, 440), (600, 80, 1000, 800)],
                 confidence = Arr [9 / 10, 8 / 10], class_id = Arr [2, 5],
                 tracker_id = Arr [1, 2]\<rparr>"
  have run: "process_frame (stub_env two_boxes number_tracks) stub_detector [frame_1280x960] 0 (1 / 50)
     = (Inr (1, ?vd),
        stub_detector\<lparr>frame_count := 1, tracker := 1, fps_history := [50]\<rparr>,
        [frame_1280x960,
         frame_1280x960\<lparr>img_data :=
           [''box'', ''box'', ''ID:1 car %.2f'', ''ID:2 bus %.2f'',
            ''Vehicles: 2 | FPS: %.1f | Frame: 1'',
            ''Inference: %.1fms | Processed: 640x480'']\<rparr>])"
    by (simp add: stub_eval model_eval upt_rec)
  have "class_id ?vd = Arr [2, 5]" "confidence ?vd = Arr [9 / 10, 8 / 10]"
    "tracker_id ?vd = Arr [1, 2]" "length [2, 5 :: int] = len_det ?vd"
    "length [9 / 10, 8 / 10 :: real] = len_det ?vd" "length [1, 2 :: int] = len_det ?vd"
    by (simp_all add: len_det_def)
  from tracked_detections_labelled[OF run this] run show ?thesis by simp
qed

section \<open>The performance window\<close>

lemma process_frame_window:
  assumes "process_frame env det heap a t = (r, det', heap')"
  shows "fps_history det' =
           (case r of Inl e \<Rightarrow> fps_history det
            | Inr res \<Rightarrow> push_fps (fps_history det) (if t > 0 then 1 / t else 0))"
  using assms unfolding process_frame_unfold
  by (auto split: sum.splits prod.splits)

lemma process_frame_frame_count:
  assumes "process_frame env det heap a t = (r, det', heap')"
  shows "frame_count det' = frame_count det + 1"
  using assms unfolding process_frame_unfold
  by (auto split: sum.splits prod.splits)

lemma process_frame_window_bound:
  assumes "process_frame env det heap a t = (r, det', heap')" and "length (fps_history det) \<le> 30"
  shows "length (fps_history det') \<le> 30"
  using process_frame_window[OF assms(1)] assms(2)
  by (cases r) (simp_all add: push_fps_length)

lemma process_frames_window_bound:
  "length (fps_history det) \<le> 30
     \<Longrightarrow> length (fps_history (fst (process_frames env det heap calls))) \<le> 30"
proof (induction calls arbitrary: det heap)
  case Nil
  then show ?case by simp
next
  case (Cons call calls)
  obtain a t where call: "call = (a, t)" by (cases call)
  obtain r det' heap' where step: "process_frame env det heap a t = (r, det', heap')"
    by (cases "process_frame env det heap a t") auto
  have "length (fps_history det') \<le> 30"
    by (rule process_frame_window_bound[OF step Cons.prems])
  then show ?case
    using Cons.IH[of det' heap'] by (simp add: call step)
qed

lemma window_bounded_from_construction:
  "length (fps_history (fst (process_frames env (new_detector env msize conf m) heap calls))) \<le> 30"
  by (rule process_frames_window_bound) (simp add: new_detector_def)

lemma process_frames_frame_count:
  "frame_count (fst (process_frames env det heap calls)) = frame_count det + length calls"
proof (induction calls arbitrary: det heap)
  case Nil
  then show ?case by simp
next
  case (Cons call calls)
  obtain a t where call: "call = (a, t)" by (cases call)
  obtain r det' heap' where step: "process_frame env det heap a t = (r, det', heap')"
    by (cases "process_frame env det heap a t") auto
  show ?case
    using Cons.IH[of det' heap'] process_frame_frame_count[OF step] by (simp add: call step)
qed

lemma get_performance_stats_nonempty:
  assumes "fps_history det \<noteq> []"
  shows "get_performance_stats det =
           Inr [(''avg_fps'', sum_list (fps_history det) / real (length (fps_history det))),
                (''total_frames'', real (frame_count det)),
                (''min_fps'', fold min (tl (fps_history det)) (hd (fps_history det))),
                (''max_fps'', fold max (tl (fps_history det)) (hd (fps_history det)))]"
  using assms
  by (cases "fps_history det")
     (simp_all add: get_performance_stats_def mean_fps_nonempty py_min_def py_max_def bind_exn_simps)

lemma get_performance_stats_empty:
  "fps_history det = [] \<Longrightarrow> get_performance_stats det = Inr [(''avg_fps'', 0), (''total_frames'', 0)]"
  by (simp add: get_performance_stats_def)

text \<open>
  Claim C3.  A call of \<open>process_frame\<close> on a detector whose window holds at most 30
  entries leaves at most 30 entries, whether it returns or raises (the window of a new
  detector is empty, see \<open>window_bounded_from_construction\<close>).  When the call returns and
  the window held 30 entries, the new window is the old one without its first (oldest)
  entry, followed by the rate of this frame; and the average that \<open>get_performance_stats\<close>
  then reports, which is also the one written into the overlay, is the sum of the entries
  of the new window divided by their number.
\<close>

theorem fps_window_bounded:
  assumes "length (fps_history det) \<le> 30"
    and "process_frame env det heap a t = (r, det', heap')"
  shows "length (fps_history det') \<le> 30
       \<and> (\<forall>c vd. r = Inr (c, vd) \<longrightarrow>
            (length (fps_history det) = 30 \<longrightarrow>
               fps_history det' = tl (fps_history det) @ [if t > 0 then 1 / t else 0])
          \<and> (length (fps_history det) < 30 \<longrightarrow>
               fps_history det' = fps_history det @ [if t > 0 then 1 / t else 0])
          \<and> map_sum id (\<lambda>stats. map_of stats ''avg_fps'') (get_performance_stats det')
               = Inr (Some (sum_list (fps_history det') / real (length (fps_history det'))))
          \<and> (\<exists>line2 scene.
                heap' ! c =
                  overlay_text env
                    (info_text env (len_det vd)
                       (sum_list (fps_history det') / real (length (fps_history det')))
                       (frame_count det'))
                    line2 scene))"
proof (intro conjI allI impI)
  show "length (fps_history det') \<le> 30"
    by (rule process_frame_window_bound[OF assms(2,1)])
next
  fix c vd
  assume r: "r = Inr (c, vd)"
  have w: "fps_history det' = push_fps (fps_history det) (if t > 0 then 1 / t else 0)"
    using process_frame_window[OF assms(2)] r by simp
  {
    assume "length (fps_history det) = 30"
    then show "fps_history det' = tl (fps_history det) @ [if t > 0 then 1 / t else 0]"
      using w by (simp add: push_fps_full)
  }
  {
    assume "length (fps_history det) < 30"
    then show "fps_history det' = fps_history det @ [if t > 0 then 1 / t else 0]"
      using w by (simp add: push_fps_room)
  }
  have ne: "fps_history det' \<noteq> []" using w by (simp add: push_fps_nonempty)
  show "map_sum id (\<lambda>stats. map_of stats ''avg_fps'') (get_performance_stats det')
          = Inr (Some (sum_list (fps_history det') / real (length (fps_history det'))))"
    by (simp add: get_performance_stats_nonempty[OF ne])
  from assms(2) r obtain target labels where
    "c = length heap"
    "heap' = heap @ [overlay_text env
                    (info_text env (len_det vd)
                       (sum_list (fps_history det') / real (length (fps_history det')))
                       (frame_count det'))
                    (inference_text env t target)
                    (draw_labels env (xyxy vd) labels (box_annotate env vd (heap ! a)))]"
    by (auto elim: process_frame_success)
  then show "\<exists>line2 scene.
                heap' ! c =
                  overlay_text env
                    (info_text env (len_det vd)
                       (sum_list (fps_history det') / real (length (fps_history det')))
                       (frame_count det'))
                    line2 scene"
    by (auto simp: nth_append)
qed

text \<open>
  A full window \<open>1, \<dots>, 30\<close> and a frame inferred in 1/50 s: the oldest entry 1 is evicted,
  50 is appended, and the reported average is \<open>514 / 30\<close>.
\<close>

theorem fps_window_bounded_witness:
  "length (fps_history full_window_detector) = 30
   \<and> process_frame (stub_env full_frame_box number_tracks) full_window_detector
        [frame_1280x960] 0 (1 / 50)
     = (Inr (1, \<lparr>xyxy = [(0, 0, 1280, 960)], confidence = Arr [9 / 10], class_id = Arr [2],
                 tracker_id = Arr [1]\<rparr>),
        full_window_detector
          \<lparr>frame_count := 31, tracker := 1,
           fps_history := [2, 3, 4, 5, 6, 7, 8, 9, 10, 11, 12, 13, 14, 15, 16, 17, 18, 19, 20,
                           21, 22, 23, 24, 25, 26, 27, 28, 29, 30, 50]\<rparr>,
        [frame_1280x960,
         frame_1280x960\<lparr>img_data :=
           [''box'', ''ID:1 car %.2f'', ''Vehicles: 1 | FPS: %.1f | Frame: 31'',
            ''Inference: %.1fms | Processed: 640x480'']\<rparr>])
   \<and> map_sum id (\<lambda>stats. map_of stats ''avg_fps'')
        (get_performance_stats
           (full_window_detector
              \<lparr>frame_count := 31, tracker := 1,
               fps_history := [2, 3, 4, 5, 6, 7, 8, 9, 10, 11, 12, 13, 14, 15, 16, 17, 18, 19, 20,
                               21, 22, 23, 24, 25, 26, 27, 28, 29, 30, 50]\<rparr>))
     = Inr (Some (514 / 30))"
proof -
  let ?det' = "full_window_detector
          \<lparr>frame_count := 31, tracker := 1,
           fps_history := [2, 3, 4, 5, 6, 7, 8, 9, 10, 11, 12, 13, 14, 15, 16, 17, 18, 19, 20,
                           21, 22, 23, 24, 25, 26, 27, 28, 29, 30, 50]\<rparr>"
  have len: "length (fps_history full_window_detector) = 30"
    by (simp add: full_window_detector_def)
  have run: "process_frame (stub_env full_frame_box number_tracks) full_window_detector
        [frame_1280x960] 0 (1 / 50)
     = (Inr (1, \<lparr>xyxy = [(0, 0, 1280, 960)], confidence = Arr [9 / 10], class_id = Arr [2],
                 tracker_id = Arr [1]\<rparr>),
        ?det',
        [frame_1280x960,
         frame_1280x960\<lparr>img_data :=
           [''box'', ''ID:1 car %.2f'', ''Vehicles: 1 | FPS: %.1f | Frame: 31'',
            ''Inference: %.1fms | Processed: 640x480'']\<rparr>])"
    by (simp add: stub_eval model_eval)
  have le: "length (fps_history full_window_detector) \<le> 30" using len by simp
  have "map_sum id (\<lambda>stats. map_of stats ''avg_fps'') (get_performance_stats ?det')
          = Inr (Some (sum_list (fps_history ?det') / real (length (fps_history ?det'))))"
    using fps_window_bounded[OF le run] by blast
  then have "map_sum id (\<lambda>stats. map_of stats ''avg_fps'') (get_performance_stats ?det')
          = Inr (Some (514 / 30))"
    by simp
  with len run show ?thesis by blast
qed

section \<open>The zero-time guard\<close>

lemma process_frame_result_time_independent:
  "fst (process_frame env det heap a t) = fst (process_frame env det heap a t')"
  unfolding process_frame_unfold
  by (auto split: sum.splits prod.splits)

text \<open>
  Claim C8.  With a measured inference time of zero the rate of the frame is computed as 0
  without dividing: a call that returns has appended 0 to the window, and whether the call
  returns or raises, and what it returns or raises, is the same as for any other measured
  time, so the zero time causes no error.
\<close>

theorem zero_inference_time_fps_zero:
  "frame_fps 0 = Inr 0
   \<and> fst (process_frame env det heap a 0) = fst (process_frame env det heap a t')
   \<and> (\<forall>c vd det' heap'.
        process_frame env det heap a 0 = (Inr (c, vd), det', heap') \<longrightarrow>
          fps_history det' \<noteq> [] \<and> last (fps_history det') = 0)"
proof (intro conjI allI impI)
  show "frame_fps 0 = Inr 0" by (simp add: frame_fps_def)
  show "fst (process_frame env det heap a 0) = fst (process_frame env det heap a t')"
    by (rule process_frame_result_time_independent)
next
  fix c vd det' heap'
  assume run: "process_frame env det heap a 0 = (Inr (c, vd), det', heap')"
  have "fps_history det' = push_fps (fps_history det) 0"
    using process_frame_window[OF run] by simp
  then show "fps_history det' \<noteq> []" and "last (fps_history det') = 0"
    by (simp_all add: push_fps_nonempty push_fps_last)
qed

text \<open>The 1280 by 960 frame with a clock that did not advance during inference.\<close>

theorem zero_inference_time_fps_zero_witness:
  "process_frame (stub_env full_frame_box number_tracks) stub_detector [frame_1280x960] 0 0
     = (Inr (1, \<lparr>xyxy = [(0, 0, 1280, 960)], confidence = Arr [9 / 10], class_id = Arr [2],
                 tracker_id = Arr [1]\<rparr>),
        stub_detector\<lparr>frame_count := 1, tracker := 1, fps_history := [0]\<rparr>,
        [frame_1280x960,
         frame_1280x960\<lparr>img_data :=
           [''box'', ''ID:1 car %.2f'', ''Vehicles: 1 | FPS: %.1f | Frame: 1'',
            ''Inference: %.1fms | Processed: 640x480'']\<rparr>])
   \<and> last (fps_history (stub_detector\<lparr>frame_count := 1, tracker := 1, fps_history := [0]\<rparr>)) = 0"
proof -
  have run: "process_frame (stub_env full_frame_box number_tracks) stub_detector [frame_1280x960] 0 0
     = (Inr (1, \<lparr>xyxy = [(0, 0, 1280, 960)], confidence = Arr [9 / 10], class_id = Arr [2],
                 tracker_id = Arr [1]\<rparr>),
        stub_detector\<lparr>frame_count := 1, tracker := 1, fps_history := [0]\<rparr>,
        [frame_1280x960,
         frame_1280x960\<lparr>img_data :=
           [''box'', ''ID:1 car %.2f'', ''Vehicles: 1 | FPS: %.1f | Frame: 1'',
            ''Inference: %.1fms | Processed: 640x480'']\<rparr>])"
    by (simp add: stub_eval model_eval)
  have "last (fps_history (stub_detector\<lparr>frame_count := 1, tracker := 1, fps_history := [0]\<rparr>)) = 0"
    using zero_inference_time_fps_zero[of "stub_env full_frame_box number_tracks" stub_detector
        "[frame_1280x960]" 0 0] run
    by blast
  with run show ?thesis by (rule conjI)
qed

section \<open>Statistics on an empty window\<close>

text \<open>
  Claim C7 fails on the code.  On an empty window \<open>get_performance_stats\<close> returns only
  \<open>avg_fps\<close> and \<open>total_frames\<close>, both 0: there is no minimum or maximum, and the frame
  counter is not reported.  This is so for a new detector, and for a detector whose only
  call of \<open>process_frame\<close> raised inside the model, which has counted one frame.
\<close>

theorem stats_on_empty_window:
  "get_performance_stats stub_detector = Inr [(''avg_fps'', 0), (''total_frames'', 0)]
   \<and> process_frame failing_model_env stub_detector [frame_1280x960] 0 (1 / 50)
       = (Inl (ExternalError ''out of memory''), stub_detector\<lparr>frame_count := 1\<rparr>,
          [frame_1280x960])
   \<and> frame_count (stub_detector\<lparr>frame_count := 1\<rparr>) = 1
   \<and> get_performance_stats (stub_detector\<lparr>frame_count := 1\<rparr>)
       = Inr [(''avg_fps'', 0), (''total_frames'', 0)]"
  by (simp add: stub_eval model_eval get_performance_stats_def)

section \<open>The JSON emitted by \<open>detect_frame\<close>\<close>

lemmas bridge_eval =
  detect_frame_def vehicle_detector_init_def load_model_def dummy_img_def
  detection_results_def detection_result_def coco_classes_def py_getitem_def error_json_def
  is_error_object_def is_detections_object_def is_detection_entry_def is_bbox_def is_num_def
  is_int_def is_str_def

lemma load_model_cases:
  "load_model env msize = SystemExit 1 \<or> (\<exists>m. load_model env msize = Returned m)"
  by (auto simp: load_model_def split: sum.splits)

lemma error_json_is_error: "is_error_object (error_json env e)"
  by (simp add: error_json_def is_error_object_def)

lemma detection_result_entry:
  assumes "detection_result d i bbox = Inr r"
  shows "is_detection_entry r"
proof -
  obtain x1 y1 x2 y2 where b: "bbox = (x1, y1, x2, y2)" by (cases bbox) auto
  from assms obtain t cf ci nm where
    "r = JObj [(''bbox'', JList [JNum x1, JNum y1, JNum x2, JNum y2]),
               (''track_id'', JInt t), (''confidence'', JNum cf), (''class_id'', JInt ci),
               (''class_name'', JStr nm)]"
    by (auto simp: detection_result_def bind_exn_Inr_iff Let_def b)
  then show ?thesis
    by (simp add: is_detection_entry_def is_bbox_def is_num_def is_int_def is_str_def)
qed

lemma results_loop_entries:
  "results_loop d i bs = Inr rs \<Longrightarrow> list_all is_detection_entry rs"
proof (induction bs arbitrary: i rs)
  case Nil
  then show ?case by simp
next
  case (Cons b bs)
  from Cons.prems obtain r rs' where
    r: "detection_result d i b = Inr r" and rs': "results_loop d (Suc i) bs = Inr rs'"
    and rs: "rs = r # rs'"
    by (auto simp: bind_exn_Inr_iff)
  show ?case
    using detection_result_entry[OF r] Cons.IH[OF rs'] rs by simp
qed

lemma detection_results_entries:
  "detection_results d = Inr rs \<Longrightarrow> list_all is_detection_entry rs"
  by (auto simp: detection_results_def dest: results_loop_entries split: if_splits)

lemma detect_frame_loaded:
  assumes "load_model env msize = Returned m"
  shows "detect_frame env heap image_path msize conf t =
     (case imread env image_path of
        None \<Rightarrow> Returned (JObj [(''error'', JStr ''Could not load image'')])
      | Some frame \<Rightarrow>
          (case process_frame env (new_detector env msize conf m) (heap @ [frame]) (length heap) t of
             (Inl e, rest) \<Rightarrow> Returned (error_json env e)
           | (Inr (c, d), rest) \<Rightarrow>
               (case detection_results d of
                  Inl e \<Rightarrow> Returned (error_json env e)
                | Inr results \<Rightarrow>
                    Returned (JObj [(''detections'', JList results), (''success'', JBool True)]))))"
  by (simp add: detect_frame_def vehicle_detector_init_def assms heap_alloc_def
      split: option.splits)

text \<open>
  Claim C9 as stated fails: when the model cannot be loaded, \<open>load_model\<close> calls
  \<open>sys.exit(1)\<close>; \<open>SystemExit\<close> is not caught by \<open>except Exception\<close>, so the call ends
  the process and nothing is emitted.
\<close>

theorem detect_frame_exits_without_model:
  "detect_frame missing_weights_env [] ''frame.jpg'' ''n'' (1 / 2) (1 / 50) = SystemExit 1"
  by (simp add: stub_eval bridge_eval)

text \<open>
  Claim C9, amended.  Whenever the model loads, \<open>detect_frame\<close> returns a JSON value that is
  either an error object or an object with \<open>success\<close> true and a list \<open>detections\<close> whose
  entries have exactly the fields \<open>bbox\<close> (four numbers), \<open>track_id\<close>, \<open>confidence\<close>,
  \<open>class_id\<close> and \<open>class_name\<close>; an unreadable image and an exception raised by
  \<open>process_frame\<close> both give the error object.
\<close>

theorem detect_frame_emits_json:
  assumes "load_model env msize = Returned m"
  shows "\<exists>j. detect_frame env heap image_path msize conf t = Returned j
           \<and> (is_error_object j \<or> is_detections_object j)
           \<and> (imread env image_path = None \<longrightarrow> is_error_object j)
           \<and> (\<forall>frame e rest.
                 imread env image_path = Some frame \<longrightarrow>
                 process_frame env (new_detector env msize conf m) (heap @ [frame]) (length heap) t
                   = (Inl e, rest) \<longrightarrow> is_error_object j)"
proof (cases "imread env image_path")
  case None
  then show ?thesis
    by (simp add: detect_frame_loaded[OF assms] is_error_object_def)
next
  case (Some frame)
  obtain r rest where pf:
    "process_frame env (new_detector env msize conf m) (heap @ [frame]) (length heap) t = (r, rest)"
    by (cases "process_frame env (new_detector env msize conf m) (heap @ [frame]) (length heap) t")
  show ?thesis
  proof (cases r)
    case (Inl e)
    then show ?thesis
      by (simp add: detect_frame_loaded[OF assms] Some pf error_json_is_error)
  next
    case (Inr res)
    obtain c d where res: "res = (c, d)" by (cases res)
    show ?thesis
    proof (cases "detection_results d")
      case (Inl e)
      then show ?thesis
        by (simp add: detect_frame_loaded[OF assms] Some pf Inr res error_json_is_error)
    next
      case results: (Inr rs)
      have "is_detections_object (JObj [(''detections'', JList rs), (''success'', JBool True)])"
        using detection_results_entries[OF results] by (simp add: is_detections_object_def)
      then show ?thesis
        by (simp add: detect_frame_loaded[OF assms] Some pf Inr res results)
    qed
  qed
qed

text \<open>The readable image of the stand-in environment gives one detection entry.\<close>

theorem detect_frame_emits_json_witness:
  "load_model (stub_env full_frame_box number_tracks) ''n'' = Returned ()
   \<and> detect_frame (stub_env full_frame_box number_tracks) [] ''frame.jpg'' ''n'' (1 / 2) (1 / 50)
       = Returned (JObj [(''detections'',
                          JList [JObj [(''bbox'', JList [JNum 0, JNum 0, JNum 1280, JNum 960]),
                                       (''track_id'', JInt 1), (''confidence'', JNum (9 / 10)),
                                       (''class_id'', JInt 2), (''class_name'', JStr ''car'')]]),
                         (''success'', JBool True)])
   \<and> detect_frame (stub_env full_frame_box number_tracks) [] ''missing.jpg'' ''n'' (1 / 2) (1 / 50)
       = Returned (JObj [(''error'', JStr ''Could not load image'')])"
proof -
  let ?env = "stub_env full_frame_box number_tracks"
  have load: "load_model ?env ''n'' = Returned ()"
    by (simp add: stub_eval bridge_eval)
  have ok: "detect_frame ?env [] ''frame.jpg'' ''n'' (1 / 2) (1 / 50)
       = Returned (JObj [(''detections'',
                          JList [JObj [(''bbox'', JList [JNum 0, JNum 0, JNum 1280, JNum 960]),
                                       (''track_id'', JInt 1), (''confidence'', JNum (9 / 10)),
                                       (''class_id'', JInt 2), (''class_name'', JStr ''car'')]]),
                         (''success'', JBool True)])"
    by (simp add: stub_eval bridge_eval model_eval)
  have "\<exists>j. detect_frame ?env [] ''missing.jpg'' ''n'' (1 / 2) (1 / 50) = Returned j
          \<and> is_error_object j"
    using detect_frame_emits_json[OF load, of "[]" "''missing.jpg''" "1 / 2" "1 / 50"]
    by (auto simp: stub_env_def)
  moreover have "detect_frame ?env [] ''missing.jpg'' ''n'' (1 / 2) (1 / 50)
       = Returned (JObj [(''error'', JStr ''Could not load image'')])"
    by (simp add: stub_eval bridge_eval)
  ultimately show ?thesis using load ok by blast
qed

section \<open>Track identifiers in the JSON\<close>

lemma results_loop_nth:
  "results_loop d k bs = Inr rs \<Longrightarrow>
     length rs = length bs \<and> (\<forall>j<length bs. detection_result d (k + j) (bs ! j) = Inr (rs ! j))"
proof (induction bs arbitrary: k rs)
  case Nil
  then show ?case by simp
next
  case (Cons b bs)
  from Cons.prems obtain r rs' where
    r: "detection_result d k b = Inr r" and rs': "results_loop d (Suc k) bs = Inr rs'"
    and rs: "rs = r # rs'"
    by (auto simp: bind_exn_Inr_iff)
  from Cons.IH[OF rs'] have len: "length rs' = length bs"
    and nth: "\<And>j. j < length bs \<Longrightarrow> detection_result d (Suc k + j) (bs ! j) = Inr (rs' ! j)"
    by simp_all
  have "detection_result d (k + j) ((b # bs) ! j) = Inr (rs ! j)" if "j < length (b # bs)" for j
  proof (cases j)
    case 0
    then show ?thesis using r rs by simp
  next
    case (Suc j')
    with that have "j' < length bs" by simp
    from nth[OF this] show ?thesis by (simp add: Suc rs)
  qed
  then show ?case using len rs by simp
qed

lemma detection_result_index_as_track_id:
  assumes "detection_result d i bbox = Inr r"
    and "tracker_id d = Missing \<or> (\<exists>ts. tracker_id d = Arr ts \<and> length ts \<le> i)"
  shows "json_field ''track_id'' r = Some (JInt (int i))"
proof -
  obtain x1 y1 x2 y2 where b: "bbox = (x1, y1, x2, y2)" by (cases bbox) auto
  from assms(2) have "attr_at (tracker_id d) i = Inr None" by auto
  with assms(1) obtain cf ci nm where
    "r = JObj [(''bbox'', JList [JNum x1, JNum y1, JNum x2, JNum y2]),
               (''track_id'', JInt (int i)), (''confidence'', JNum cf), (''class_id'', JInt ci),
               (''class_name'', JStr nm)]"
    by (auto simp: detection_result_def bind_exn_Inr_iff Let_def b)
  then show ?thesis by simp
qed

text \<open>
  Claim C10.  In the object emitted by \<open>detect_frame\<close> for the detections \<open>d\<close> that
  \<open>process_frame\<close> returned, the entry of every detection for which there is no tracker
  identifier (the object has no \<open>tracker_id\<close> attribute, or the array is too short to reach
  index \<open>i\<close>) has its zero-based index \<open>i\<close> as \<open>track_id\<close>.
\<close>

theorem track_id_falls_back_to_index:
  assumes "load_model env msize = Returned m"
    and "imread env image_path = Some frame"
    and "process_frame env (new_detector env msize conf m) (heap @ [frame]) (length heap) t
           = (Inr (c, d), rest)"
    and "detect_frame env heap image_path msize conf t = Returned j"
    and "json_field ''detections'' j = Some (JList rs)"
    and "i < len_det d"
    and "tracker_id d = Missing \<or> (\<exists>ts. tracker_id d = Arr ts \<and> length ts \<le> i)"
  shows "i < length rs \<and> json_field ''track_id'' (rs ! i) = Some (JInt (int i))"
proof -
  have j: "(case detection_results d of
              Inl e \<Rightarrow> Returned (error_json env e)
            | Inr results \<Rightarrow>
                Returned (JObj [(''detections'', JList results), (''success'', JBool True)]))
           = Returned j"
    using assms(4) by (simp add: detect_frame_loaded[OF assms(1)] assms(2,3))
  have "detection_results d = Inr rs"
  proof (cases "detection_results d")
    case (Inl e)
    with j have "j = error_json env e" by simp
    with assms(5) show ?thesis by (simp add: error_json_def)
  next
    case (Inr results)
    with j have "j = JObj [(''detections'', JList results), (''success'', JBool True)]" by simp
    with assms(5) Inr show ?thesis by simp
  qed
  with assms(6) have loop: "results_loop d 0 (xyxy d) = Inr rs"
    by (simp add: detection_results_def)
  from results_loop_nth[OF loop] assms(6) have
    len: "i < length rs" and r: "detection_result d i (xyxy d ! i) = Inr (rs ! i)"
    by (simp_all add: len_det_def)
  show ?thesis
    using len detection_result_index_as_track_id[OF r assms(7)] by simp
qed

text \<open>
  Two detections and a tracker that hands back a single identifier 7: the second entry
  gets its index 1.
\<close>

theorem track_id_falls_back_to_index_witness:
  "detect_frame (stub_env two_boxes one_track_id) [] ''frame.jpg'' ''n'' (1 / 2) (1 / 50)
     = Returned (JObj [(''detections'',
          JList [JObj [(''bbox'', JList [JNum 20, JNum 40, JNum 220, JNum 440]),
                       (''track_id'', JInt 7), (''confidence'', JNum (9 / 10)),
                       (''class_id'', JInt 2), (''class_name'', JStr ''car'')],
                 JObj [(''bbox'', JList [JNum 600, JNum 80, JNum 1000, JNum 800]),
                       (''track_id'', JInt 1), (''confidence'', JNum (8 / 10)),
                       (''class_id'', JInt 5), (''class_name'', JStr ''bus'')]]),
          (''success'', JBool True)])
   \<and> json_field ''track_id''
        ([JObj [(''bbox'', JList [JNum 20, JNum 40, JNum 220, JNum 440]),
                (''track_id'', JInt 7), (''confidence'', JNum (9 / 10)),
                (''class_id'', JInt 2), (''class_name'', JStr ''car'')],
          JObj [(''bbox'', JList [JNum 600, JNum 80, JNum 1000, JNum 800]),
                (''track_id'', JInt 1), (''confidence'', JNum (8 / 10)),
                (''class_id'', JInt 5), (''class_name'', JStr ''bus'')]] ! 1)
      = Some (JInt (int 1))"
proof -
  let ?env = "stub_env two_boxes one_track_id"
  let ?rs = "[JObj [(''bbox'', JList [JNum 20, JNum 40, JNum 220, JNum 440]),
                (''track_id'', JInt 7), (''confidence'', JNum (9 / 10)),
                (''class_id'', JInt 2), (''class_name'', JStr ''car'')],
          JObj [(''bbox'', JList [JNum 600, JNum 80, JNum 1000, JNum 800]),
                (''track_id'', JInt 1), (''confidence'', JNum (8 / 10)),
                (''class_id'', JInt 5), (''class_name'', JStr ''bus'')]]"
  let ?d = "\<lparr>xyxy = [(20, 40, 220, 440), (600, 80, 1000, 800)],
            confidence = Arr [9 / 10, 8 / 10], class_id = Arr [2, 5], tracker_id = Arr [7]\<rparr>"
  let ?frame = "\<lparr>img_height = 960, img_width = 1280, img_data = []\<rparr> :: string list image"
  have load: "load_model ?env ''n'' = Returned ()"
    by (simp add: stub_eval bridge_eval)
  have img: "imread ?env ''frame.jpg'' = Some ?frame"
    by (simp add: stub_env_def)
  have run: "process_frame ?env (new_detector ?env ''n'' (1 / 2) ()) ([] @ [?frame]) (length []) (1 / 50)
      = (Inr (1, ?d),
         snd (process_frame ?env (new_detector ?env ''n'' (1 / 2) ()) ([] @ [?frame]) (length []) (1 / 50)))"
    by (simp add: stub_eval model_eval upt_rec)
  have out: "detect_frame ?env [] ''frame.jpg'' ''n'' (1 / 2) (1 / 50)
      = Returned (JObj [(''detections'', JList ?rs), (''success'', JBool True)])"
    by (simp add: stub_eval bridge_eval model_eval upt_rec)
  have field: "json_field ''detections'' (JObj [(''detections'', JList ?rs), (''success'', JBool True)])
      = Some (JList ?rs)"
    by simp
  have i: "1 < len_det ?d" by (simp add: len_det_def)
  have short: "tracker_id ?d = Missing \<or> (\<exists>ts. tracker_id ?d = Arr ts \<and> length ts \<le> 1)"
    by simp
  from track_id_falls_back_to_index[OF load img run out field i short] out
  show ?thesis by blast
qed

end
